theory Spec2Isabelle
  imports Complex_Main
begin

text \<open>
  A model of the game-starter template: the preset selector
  (\<^verbatim>\<open>detectGameType\<close>, \<^verbatim>\<open>GamePresets\<close>, \<^verbatim>\<open>getGamePreset\<close>), the character class
  \<^verbatim>\<open>BaseCharacter\<close> and the visual factory \<^verbatim>\<open>SpriteFactory\<close>. The definitions come
  first, each after the TypeScript it stands for; the properties follow.
\<close>

section \<open>Strings\<close>

text \<open>
  A string is a list of code units. The model covers the code units below 256 (Latin-1),
  where \<^verbatim>\<open>String.prototype.toLowerCase\<close> works one code unit at a time: the letters
  A to Z and the capital letters U+00C0 to U+00DE (the multiplication sign U+00D7 apart)
  move up by 32, every other code unit stays.
\<close>

definition toLowerCaseChar :: "char \<Rightarrow> char" where
  "toLowerCaseChar c =
     (let n = (of_char c :: nat)
      in if (65 \<le> n \<and> n \<le> 90) \<or> (192 \<le> n \<and> n \<le> 222 \<and> n \<noteq> 215)
         then char_of (n + 32) else c)"

definition toLowerCase :: "string \<Rightarrow> string" where
  "toLowerCase s = map toLowerCaseChar s"

text \<open>\<^verbatim>\<open>s.startsWith(k)\<close> and \<^verbatim>\<open>s.includes(k)\<close>: \<open>k\<close> occurs in \<open>s\<close> at some position.\<close>

fun startsWith :: "string \<Rightarrow> string \<Rightarrow> bool" where
  "startsWith s [] = True"
| "startsWith [] (k # ks) = False"
| "startsWith (c # cs) (k # ks) = (c = k \<and> startsWith cs ks)"

fun includes_str :: "string \<Rightarrow> string \<Rightarrow> bool" where
  "includes_str [] k = startsWith [] k"
| "includes_str (c # cs) k = (startsWith (c # cs) k \<or> includes_str cs k)"

section \<open>Preset selector: \<^verbatim>\<open>detectGameType\<close>\<close>

text \<open>
  The local table \<^verbatim>\<open>patterns\<close>. \<^verbatim>\<open>Object.entries\<close> lists the properties of an object
  literal whose keys are not array indices in the order they are written.
\<close>

definition patterns :: "(string \<times> string list) list" where
  "patterns =
    [(''platformer'', [''platform'', ''jump'', ''mario'', ''sonic'', ''metroidvania'']),
     (''shooter'', [''shoot'', ''gun'', ''bullet'', ''space'', ''shmup'', ''nave'']),
     (''puzzle'', [''puzzle'', ''match'', ''tetris'', ''candy'', ''quebra'']),
     (''rpg'', [''rpg'', ''adventure'', ''quest'', ''inventory'', ''dungeon'']),
     (''racing'', [''race'', ''racing'', ''car'', ''speed'', ''corrida'']),
     (''zen'', [''zen'', ''calm'', ''relax'', ''meditation'', ''peaceful''])]"

text \<open>
  The \<^verbatim>\<open>for ... of\<close> loop over the entries, with its early \<^verbatim>\<open>return type\<close>;
  \<open>None\<close> when the loop runs to its end.
\<close>

fun scanEntries :: "(string \<times> string list) list \<Rightarrow> string \<Rightarrow> string option" where
  "scanEntries [] desc = None"
| "scanEntries ((type, keywords) # rest) desc =
     (if list_ex (\<lambda>keyword. includes_str desc keyword) keywords then Some type
      else scanEntries rest desc)"

definition detectGameType :: "string \<Rightarrow> string" where
  "detectGameType description =
     (let desc = toLowerCase description
      in case scanEntries patterns desc of
           Some type \<Rightarrow> type
         | None \<Rightarrow> ''platformer'')"

text \<open>
  The specification's words: a keyword occurs case-insensitively as a substring of the
  input when some contiguous piece of the input equals the keyword up to letter case.
\<close>

definition occurs_ci :: "string \<Rightarrow> string \<Rightarrow> bool" where
  "occurs_ci k d = (\<exists>ps s ss. d = ps @ s @ ss \<and> toLowerCase s = toLowerCase k)"

definition genre_matches :: "string \<Rightarrow> nat \<Rightarrow> bool" where
  "genre_matches d i = (\<exists>k \<in> set (snd (patterns ! i)). occurs_ci k d)"

text \<open>The test of one entry in the loop: \<^verbatim>\<open>keywords.some(keyword => desc.includes(keyword))\<close>.\<close>

definition hit :: "string \<Rightarrow> string \<times> string list \<Rightarrow> bool" where
  "hit desc e = list_ex (\<lambda>keyword. includes_str desc keyword) (snd e)"

section \<open>Values and object literals\<close>

text \<open>
  The values the program builds with literals. In a literal, and in the geometry of the
  visual factory, a number is a real and a decimal literal stands for itself; the numbers
  that \<^verbatim>\<open>BaseCharacter\<close> computes with are doubles, defined further down. An object literal is the list of its properties as written (no
  literal of the program repeats a key). \<open>Builtin k\<close> is the function or object that
  every object literal inherits from \<^verbatim>\<open>Object.prototype\<close> under the name \<open>k\<close>;
  \<open>This\<close> is a reference to the object whose method is running.
\<close>

datatype jsval =
    Undefined
  | Null
  | Bool bool
  | Num real
  | Str string
  | Arr "jsval list"
  | Obj "(string \<times> jsval) list"
  | Builtin string
  | This

text \<open>\<open>TypeError k\<close>: the property \<open>k\<close> was read on \<^verbatim>\<open>undefined\<close> or \<^verbatim>\<open>null\<close>.\<close>

datatype error = TypeError string

text \<open>The property names of \<^verbatim>\<open>Object.prototype\<close> (ECMAScript, with Annex B).\<close>

definition Object_prototype :: "string list" where
  "Object_prototype =
    [''constructor'', ''__defineGetter__'', ''__defineSetter__'', ''hasOwnProperty'',
     ''__lookupGetter__'', ''__lookupSetter__'', ''isPrototypeOf'', ''propertyIsEnumerable'',
     ''toString'', ''valueOf'', ''__proto__'', ''toLocaleString'']"

text \<open>
  \<^verbatim>\<open>obj[key]\<close> on an object literal: the own property, else the property inherited
  from \<^verbatim>\<open>Object.prototype\<close>, else \<^verbatim>\<open>undefined\<close>.
\<close>

definition objGet :: "(string \<times> jsval) list \<Rightarrow> string \<Rightarrow> jsval" where
  "objGet props key =
     (case map_of props key of
        Some v \<Rightarrow> v
      | None \<Rightarrow> if key \<in> set Object_prototype then Builtin key else Undefined)"

text \<open>Truthiness, and \<^verbatim>\<open>a || b\<close>.\<close>

fun truthy :: "jsval \<Rightarrow> bool" where
  "truthy Undefined = False"
| "truthy Null = False"
| "truthy (Bool b) = b"
| "truthy (Num n) = (n \<noteq> 0)"
| "truthy (Str s) = (s \<noteq> [])"
| "truthy (Arr xs) = True"
| "truthy (Obj props) = True"
| "truthy (Builtin k) = True"
| "truthy This = True"

definition jsOr :: "jsval \<Rightarrow> jsval \<Rightarrow> jsval" where
  "jsOr a b = (if truthy a then a else b)"

section \<open>Preset selector: \<^verbatim>\<open>GamePresets\<close> and \<^verbatim>\<open>getGamePreset\<close>\<close>

definition GamePresets :: "(string \<times> jsval) list" where
  "GamePresets =
    [(''platformer'', Obj
       [(''physics'', Obj [(''gravity'', Obj [(''x'', Num 0), (''y'', Num 980)])]),
        (''player'', Obj [(''speed'', Num 200), (''jumpHeight'', Num 400), (''health'', Num 3)]),
        (''camera'', Obj [(''lerp'', Num 0.1), (''deadzone'', Num 50), (''smooth'', Bool True)]),
        (''polish'', Obj [(''screenShake'', Bool True), (''particles'', Bool True),
                         (''tweenStyle'', Str ''aggressive''), (''soundLevel'', Str ''many'')])]),
     (''shooter'', Obj
       [(''physics'', Obj [(''gravity'', Obj [(''x'', Num 0), (''y'', Num 0)])]),
        (''player'', Obj [(''speed'', Num 300), (''fireRate'', Num 100), (''health'', Num 100)]),
        (''camera'', Obj [(''smooth'', Bool True), (''zoom'', Num 1)]),
        (''polish'', Obj [(''screenShake'', Bool True), (''particles'', Bool True),
                         (''tweenStyle'', Str ''aggressive''), (''soundLevel'', Str ''many'')])]),
     (''puzzle'', Obj
       [(''physics'', Obj [(''gravity'', Obj [(''x'', Num 0), (''y'', Num 0)])]),
        (''player'', Obj [(''speed'', Num 0)]),
        (''camera'', Obj [(''smooth'', Bool False), (''zoom'', Num 1)]),
        (''polish'', Obj [(''screenShake'', Bool False), (''particles'', Str ''subtle''),
                         (''tweenStyle'', Str ''smooth''), (''soundLevel'', Str ''moderate'')])]),
     (''rpg'', Obj
       [(''physics'', Obj [(''gravity'', Obj [(''x'', Num 0), (''y'', Num 0)])]),
        (''player'', Obj [(''speed'', Num 150), (''health'', Num 100)]),
        (''camera'', Obj [(''lerp'', Num 0.08), (''smooth'', Bool True), (''zoom'', Num 2)]),
        (''polish'', Obj [(''screenShake'', Bool False), (''particles'', Str ''subtle''),
                         (''tweenStyle'', Str ''smooth''), (''soundLevel'', Str ''moderate'')])]),
     (''racing'', Obj
       [(''physics'', Obj [(''gravity'', Obj [(''x'', Num 0), (''y'', Num 0)])]),
        (''player'', Obj [(''speed'', Num 400)]),
        (''camera'', Obj [(''lerp'', Num 0.15), (''smooth'', Bool True)]),
        (''polish'', Obj [(''screenShake'', Bool True), (''particles'', Bool True),
                         (''tweenStyle'', Str ''aggressive''), (''soundLevel'', Str ''many'')])]),
     (''zen'', Obj
       [(''physics'', Obj [(''gravity'', Obj [(''x'', Num 0), (''y'', Num 100)])]),
        (''player'', Obj [(''speed'', Num 100)]),
        (''camera'', Obj [(''lerp'', Num 0.05), (''smooth'', Bool True), (''zoom'', Num 1)]),
        (''polish'', Obj [(''screenShake'', Bool False), (''particles'', Bool False),
                         (''tweenStyle'', Str ''gentle''), (''soundLevel'', Str ''minimal'')])])]"

text \<open>
  \<^verbatim>\<open>getGamePreset\<close>, as a function of the table that the module declares:
  \<^verbatim>\<open>GamePresets[gameType] || GamePresets.platformer\<close>. What a call does to the
  objects it shares with the rest of the program is the subject of a later section.
\<close>

definition getGamePreset :: "string \<Rightarrow> jsval" where
  "getGamePreset gameType = jsOr (objGet GamePresets gameType) (objGet GamePresets ''platformer'')"

definition genreNames :: "string list" where
  "genreNames = [''platformer'', ''shooter'', ''puzzle'', ''rpg'', ''racing'', ''zen'']"

text \<open>
  A fully populated preset, in the specification's words: an object whose own properties
  \<^verbatim>\<open>physics\<close>, \<^verbatim>\<open>player\<close>, \<^verbatim>\<open>camera\<close> and \<^verbatim>\<open>polish\<close> are objects, the physics
  group holding a gravity vector of two numbers.
\<close>

fun isObj :: "jsval option \<Rightarrow> bool" where
  "isObj (Some (Obj props)) = True"
| "isObj v = False"

fun isNum :: "jsval option \<Rightarrow> bool" where
  "isNum (Some (Num n)) = True"
| "isNum v = False"

fun own :: "jsval option \<Rightarrow> string \<Rightarrow> jsval option" where
  "own (Some (Obj props)) key = map_of props key"
| "own v key = None"

definition fullyPopulated :: "jsval \<Rightarrow> bool" where
  "fullyPopulated p =
     (isObj (own (Some p) ''physics'')
      \<and> isObj (own (own (Some p) ''physics'') ''gravity'')
      \<and> isNum (own (own (own (Some p) ''physics'') ''gravity'') ''x'')
      \<and> isNum (own (own (own (Some p) ''physics'') ''gravity'') ''y'')
      \<and> isObj (own (Some p) ''player'')
      \<and> isObj (own (Some p) ''camera'')
      \<and> isObj (own (Some p) ''polish''))"

section \<open>Numbers\<close>

text \<open>
  The numbers that \<^verbatim>\<open>BaseCharacter\<close> computes with, compares or tests for truth are
  doubles (IEEE 754 binary64): \<^verbatim>\<open>NaN\<close>, the two infinities, and the finite values.
  A finite double is a real \<open>m * 2 powi e\<close> with an integer \<open>m\<close> of at most 53 bits
  and \<open>- 1074 \<le> e \<le> 971\<close>; the type has room for every real, and \<open>is_double\<close>
  tells the doubles among them. The two zeros are one value: the program never divides
  and so cannot tell them apart.
\<close>

datatype number = NaN | NegInf | Fin real | PosInf

text \<open>Rounding to the nearest integer, a tie going to the even one.\<close>

definition roundHalfEven :: "real \<Rightarrow> int" where
  "roundHalfEven q =
     (let f = \<lfloor>q\<rfloor>; d = q - of_int f
      in if d < 1 / 2 then f
         else if 1 / 2 < d then f + 1
         else if even f then f else f + 1)"

text \<open>
  The binary exponent of a magnitude \<open>a\<close>: the greatest \<open>e\<close> from \<open>- 1021\<close> to
  \<open>1023\<close> with \<open>2 powi e \<le> a\<close>, and \<open>- 1022\<close> (the exponent of the subnormal
  numbers) if there is none. The search starts at the top.
\<close>

fun searchExponent :: "nat \<Rightarrow> real \<Rightarrow> int" where
  "searchExponent 0 a = - 1022"
| "searchExponent (Suc n) a =
     (if 2 powi (int n - 1021) \<le> a then int n - 1021 else searchExponent n a)"

definition exponent :: "real \<Rightarrow> int" where
  "exponent x = searchExponent 2045 \<bar>x\<bar>"

text \<open>
  Rounding a real result to a double, to nearest with ties to even: the result is a
  multiple of the unit in the last place of its binade, and overflows to an infinity
  from \<open>2 ^ 1024\<close> on.
\<close>

definition nearest :: "real \<Rightarrow> real" where
  "nearest x = (let u = 2 powi (exponent x - 52) in of_int (roundHalfEven (x / u)) * u)"

definition fl :: "real \<Rightarrow> number" where
  "fl x = (let r = nearest x
           in if 2 ^ 1024 \<le> r then PosInf
              else if r \<le> - (2 ^ 1024) then NegInf
              else Fin r)"

fun is_double :: "number \<Rightarrow> bool" where
  "is_double (Fin x) = (fl x = Fin x)"
| "is_double n = True"

text \<open>\<^verbatim>\<open>a + b\<close>, \<^verbatim>\<open>-a\<close>, \<^verbatim>\<open>a - b\<close> and \<^verbatim>\<open>a * b\<close>.\<close>

fun num_add :: "number \<Rightarrow> number \<Rightarrow> number" where
  "num_add NaN b = NaN"
| "num_add a NaN = NaN"
| "num_add PosInf NegInf = NaN"
| "num_add NegInf PosInf = NaN"
| "num_add PosInf b = PosInf"
| "num_add a PosInf = PosInf"
| "num_add NegInf b = NegInf"
| "num_add a NegInf = NegInf"
| "num_add (Fin a) (Fin b) = fl (a + b)"

fun num_neg :: "number \<Rightarrow> number" where
  "num_neg NaN = NaN"
| "num_neg NegInf = PosInf"
| "num_neg PosInf = NegInf"
| "num_neg (Fin a) = Fin (- a)"

definition num_sub :: "number \<Rightarrow> number \<Rightarrow> number" where
  "num_sub a b = num_add a (num_neg b)"

fun num_mul :: "number \<Rightarrow> number \<Rightarrow> number" where
  "num_mul NaN b = NaN"
| "num_mul a NaN = NaN"
| "num_mul (Fin a) (Fin b) = fl (a * b)"
| "num_mul (Fin a) PosInf = (if a = 0 then NaN else if 0 < a then PosInf else NegInf)"
| "num_mul (Fin a) NegInf = (if a = 0 then NaN else if 0 < a then NegInf else PosInf)"
| "num_mul PosInf (Fin b) = (if b = 0 then NaN else if 0 < b then PosInf else NegInf)"
| "num_mul NegInf (Fin b) = (if b = 0 then NaN else if 0 < b then NegInf else PosInf)"
| "num_mul PosInf PosInf = PosInf"
| "num_mul NegInf NegInf = PosInf"
| "num_mul PosInf NegInf = NegInf"
| "num_mul NegInf PosInf = NegInf"

text \<open>\<^verbatim>\<open>a <= b\<close> and \<^verbatim>\<open>a < b\<close>: false as soon as one side is \<^verbatim>\<open>NaN\<close>.\<close>

fun num_le :: "number \<Rightarrow> number \<Rightarrow> bool" where
  "num_le NaN b = False"
| "num_le a NaN = False"
| "num_le NegInf b = True"
| "num_le a PosInf = True"
| "num_le (Fin a) (Fin b) = (a \<le> b)"
| "num_le PosInf b = False"
| "num_le a NegInf = False"

fun num_lt :: "number \<Rightarrow> number \<Rightarrow> bool" where
  "num_lt NaN b = False"
| "num_lt a NaN = False"
| "num_lt PosInf b = False"
| "num_lt a NegInf = False"
| "num_lt (Fin a) (Fin b) = (a < b)"
| "num_lt NegInf b = True"
| "num_lt a PosInf = True"

text \<open>\<^verbatim>\<open>Math.min(a, b)\<close>: \<^verbatim>\<open>NaN\<close> if one of the two is.\<close>

fun num_min :: "number \<Rightarrow> number \<Rightarrow> number" where
  "num_min NaN b = NaN"
| "num_min a NaN = NaN"
| "num_min a b = (if num_le a b then a else b)"

text \<open>Truthiness of a number: \<open>0\<close> and \<^verbatim>\<open>NaN\<close> are falsy.\<close>

fun num_truthy :: "number \<Rightarrow> bool" where
  "num_truthy NaN = False"
| "num_truthy (Fin a) = (a \<noteq> 0)"
| "num_truthy n = True"


section \<open>The host engine\<close>

text \<open>
  The rendering engine (Phaser) is no part of the repository. What the program asks of
  it is modelled by data: a game object is the request that made it, with the position
  and the arguments it was given, and a scene holds the tweens, delayed calls, particle
  emitters, camera shakes and textures requested so far. The engine is taken to provide
  every service the program calls, \<^verbatim>\<open>scene.add.particles\<close> included, so that the test
  \<^verbatim>\<open>if (this.scene.add.particles)\<close> succeeds; its calls do not fail.
\<close>

text \<open>\<^verbatim>\<open>Math.PI\<close>: the double nearest to the number pi.\<close>

definition Math_PI :: real where
  "Math_PI = 884279719003555 / 281474976710656"

text \<open>Drawing commands of a \<^verbatim>\<open>Graphics\<close> object.\<close>

datatype gfx =
    FillStyle real
  | FillEllipse real real real real
  | FillTriangle real real real real real real
  | FillRect real real real real

text \<open>
  Game objects, each with the arguments of the call that makes it, position first:
  \<^verbatim>\<open>add.rectangle(x, y, width, height, fillColor, fillAlpha)\<close>,
  \<^verbatim>\<open>add.circle(x, y, radius, fillColor)\<close>,
  \<^verbatim>\<open>add.triangle(x, y, x1, y1, x2, y2, x3, y3, fillColor)\<close>,
  \<^verbatim>\<open>add.polygon(x, y, points, fillColor)\<close>,
  \<^verbatim>\<open>add.star(x, y, points, innerRadius, outerRadius, fillColor)\<close>,
  \<^verbatim>\<open>add.graphics()\<close> (at the origin) with the commands drawn on it,
  \<^verbatim>\<open>add.container(x, y)\<close> with the children added to it,
  \<^verbatim>\<open>add.text(x, y, text, style)\<close> with the font size in pixels, the font family and
  the origin, and \<^verbatim>\<open>add.particles(x, y, texture, config)\<close>.
  An argument left out of a call is \<^verbatim>\<open>undefined\<close>.
\<close>

datatype gameobj =
    Rectangle real real real real jsval jsval
  | Circle real real real jsval
  | Triangle real real real real real real real real jsval
  | Polygon real real string jsval
  | Star real real real real real jsval
  | Graphics "gfx list"
  | Container real real "gameobj list"
  | Text real real string real string real
  | ParticleEmitter real real string jsval

text \<open>The position a game object exposes (its \<^verbatim>\<open>x\<close> and \<^verbatim>\<open>y\<close>).\<close>

fun position :: "gameobj \<Rightarrow> real \<times> real" where
  "position (Rectangle x y w h c a) = (x, y)"
| "position (Circle x y r c) = (x, y)"
| "position (Triangle x y x1 y1 x2 y2 x3 y3 c) = (x, y)"
| "position (Polygon x y pts c) = (x, y)"
| "position (Star x y n inner outer c) = (x, y)"
| "position (Graphics cmds) = (0, 0)"
| "position (Container x y children) = (x, y)"
| "position (Text x y t sz family origin) = (x, y)"
| "position (ParticleEmitter x y texture cfg) = (x, y)"

text \<open>
  The closures the program hands to the engine, to be run later:
  \<^verbatim>\<open>() => { this.invulnerable = false; this.setAlpha(1); }\<close>,
  \<^verbatim>\<open>() => { this.clearTint(); }\<close>,
  \<^verbatim>\<open>() => emitter.destroy()\<close> for the emitter of the given number,
  the reset closure of \<^verbatim>\<open>powerUp\<close> with the \<^verbatim>\<open>originalSpeed\<close> it captured, and
  \<^verbatim>\<open>() => { this.destroy(); }\<close>.
\<close>

datatype callback =
    EndInvulnerability
  | ClearTint
  | DestroyEmitter nat
  | EndPowerUp number
  | DestroySelf

text \<open>
  A tween: its target (the character itself, or a game object as it is when the tween
  is requested), its other properties, and its \<^verbatim>\<open>onComplete\<close> closure if it has one.
\<close>

datatype target = TargetThis | TargetObject gameobj

record tween =
  targets :: target
  config :: jsval
  onComplete :: "callback option"

text \<open>
  An emitter is known by its index in \<open>emitters\<close>; the flag tells whether it is still
  alive (not destroyed).
\<close>

record scene =
  tweens :: "tween list"
  timers :: "(real \<times> callback) list"
  emitters :: "(gameobj \<times> bool) list"
  shakes :: "(real \<times> real) list"
  textures :: "string list"

definition emptyScene :: scene where
  "emptyScene = \<lparr>tweens = [], timers = [], emitters = [], shakes = [], textures = []\<rparr>"

text \<open>A parameter with a default value: the default stands in when the argument is left out.\<close>

fun param :: "'a option \<Rightarrow> 'a \<Rightarrow> 'a" where
  "param None d = d"
| "param (Some v) d = v"

text \<open>\<^verbatim>\<open>scene.tweens.add\<close>, \<^verbatim>\<open>scene.time.delayedCall\<close>, \<^verbatim>\<open>scene.add.particles\<close>,
  \<^verbatim>\<open>emitter.destroy\<close> and \<^verbatim>\<open>graphics.generateTexture\<close>.\<close>

definition tweens_add :: "tween \<Rightarrow> scene \<Rightarrow> scene" where
  "tweens_add t s = s\<lparr>tweens := tweens s @ [t]\<rparr>"

definition delayedCall :: "real \<Rightarrow> callback \<Rightarrow> scene \<Rightarrow> scene" where
  "delayedCall delay cb s = s\<lparr>timers := timers s @ [(delay, cb)]\<rparr>"

definition add_particles :: "real \<Rightarrow> real \<Rightarrow> string \<Rightarrow> jsval \<Rightarrow> scene \<Rightarrow> nat \<times> scene" where
  "add_particles x y texture cfg s =
     (length (emitters s), s\<lparr>emitters := emitters s @ [(ParticleEmitter x y texture cfg, True)]\<rparr>)"

definition emitter_destroy :: "nat \<Rightarrow> scene \<Rightarrow> scene" where
  "emitter_destroy i s =
     (if i < length (emitters s)
      then s\<lparr>emitters := (emitters s)[i := (fst (emitters s ! i), False)]\<rparr>
      else s)"

definition generateTexture :: "string \<Rightarrow> scene \<Rightarrow> scene" where
  "generateTexture key s = s\<lparr>textures := textures s @ [key]\<rparr>"

section \<open>\<^verbatim>\<open>BaseCharacter\<close>\<close>

text \<open>
  \<^verbatim>\<open>CharacterConfig\<close>, but for its scene, which is passed along separately. An optional
  property that is left out is \<open>None\<close>.
\<close>

record CharacterConfig =
  cfg_x :: real
  cfg_y :: real
  cfg_texture :: "string option"
  cfg_speed :: "number option"
  cfg_jumpHeight :: "number option"
  cfg_health :: "number option"
  cfg_scale :: "number option"

datatype facing = FacingLeft | FacingRight

text \<open>
  The fields of a \<^verbatim>\<open>BaseCharacter\<close>: those it declares, and those of the engine's sprite
  that its methods set (position, texture, scale, alpha, tint, world-bounds collision
  and bounce). \<open>trail\<close> is the number of the trail emitter, if there is one.
  \<open>destroyed\<close> tells that the engine has destroyed the sprite: from then on its
  \<^verbatim>\<open>scene\<close> property is \<^verbatim>\<open>undefined\<close>. The numbers that the class computes with or
  tests (speed, jump height, health, scale) are doubles; those it only stores or hands
  to the engine (position, alpha, tint, bounce) are reals.
\<close>

record character =
  sprite_x :: real
  sprite_y :: real
  texture_key :: string
  scaleX :: number
  scaleY :: number
  alpha :: real
  tint :: "real option"
  collideWorldBounds :: bool
  bounce :: real
  speed :: number
  jumpHeight :: number
  health :: number
  maxHealth :: number
  isJumping :: bool
  facing :: facing
  invulnerable :: bool
  trail :: "nat option"
  destroyed :: bool

text \<open>A character lives in a scene; its methods change both.\<close>

record world =
  self :: character
  scene :: scene

text \<open>
  A method returns, or it throws; either way it leaves the character and the scene in
  some state, from which the next call goes on.
\<close>

datatype outcome = Returned world | Threw error world

fun state_of :: "outcome \<Rightarrow> world" where
  "state_of (Returned w) = w"
| "state_of (Threw e w) = w"

text \<open>One statement after another: what follows a throw is not run.\<close>

fun and_then :: "outcome \<Rightarrow> (world \<Rightarrow> outcome) \<Rightarrow> outcome" where
  "and_then (Returned w) f = f w"
| "and_then (Threw e w) f = Threw e w"

text \<open>
  \<^verbatim>\<open>v || d\<close> for an optional number \<open>v\<close> and a default \<open>d\<close>: \<^verbatim>\<open>undefined\<close>, \<open>0\<close>
  and \<^verbatim>\<open>NaN\<close> are falsy. Likewise for an optional string, where the empty string is
  falsy.
\<close>

definition num_or :: "number option \<Rightarrow> number \<Rightarrow> number" where
  "num_or v d = (case v of None \<Rightarrow> d | Some n \<Rightarrow> if num_truthy n then n else d)"

definition str_or :: "string option \<Rightarrow> string \<Rightarrow> string" where
  "str_or v d = (case v of None \<Rightarrow> d | Some t \<Rightarrow> if t = [] then d else t)"

text \<open>
  The constructor. The sprite starts with the engine's defaults (scale 1, alpha 1, no
  tint); adding it to the scene and to the physics world leaves no trace in the model.
\<close>

definition BaseCharacter :: "CharacterConfig \<Rightarrow> scene \<Rightarrow> world" where
  "BaseCharacter cfg s =
     (let h = num_or (cfg_health cfg) (Fin 3);
          sc = (case cfg_scale cfg of
                  None \<Rightarrow> Fin 1
                | Some k \<Rightarrow> if num_truthy k then k else Fin 1)
      in \<lparr>self =
            \<lparr>sprite_x = cfg_x cfg,
             sprite_y = cfg_y cfg,
             texture_key = str_or (cfg_texture cfg) [],
             scaleX = sc,
             scaleY = sc,
             alpha = 1,
             tint = None,
             collideWorldBounds = True,
             bounce = 0.2,
             speed = num_or (cfg_speed cfg) (Fin 200),
             jumpHeight = num_or (cfg_jumpHeight cfg) (Fin 400),
             health = h,
             maxHealth = h,
             isJumping = False,
             facing = FacingRight,
             invulnerable = False,
             trail = None,
             destroyed = False\<rparr>,
          scene = s\<rparr>)"

text \<open>The sprite's setters. They touch the sprite alone and work on a destroyed one too.\<close>

definition setTint :: "real \<Rightarrow> world \<Rightarrow> world" where
  "setTint c w = w\<lparr>self := (self w)\<lparr>tint := Some c\<rparr>\<rparr>"

definition clearTint :: "world \<Rightarrow> world" where
  "clearTint w = w\<lparr>self := (self w)\<lparr>tint := None\<rparr>\<rparr>"

definition setAlpha :: "real \<Rightarrow> world \<Rightarrow> world" where
  "setAlpha a w = w\<lparr>self := (self w)\<lparr>alpha := a\<rparr>\<rparr>"

definition setScale :: "number \<Rightarrow> world \<Rightarrow> world" where
  "setScale k w = w\<lparr>self := (self w)\<lparr>scaleX := k, scaleY := k\<rparr>\<rparr>"

definition in_scene :: "(scene \<Rightarrow> scene) \<Rightarrow> world \<Rightarrow> world" where
  "in_scene f w = w\<lparr>scene := f (scene w)\<rparr>"

text \<open>
  A statement \<^verbatim>\<open>this.scene.member. ...\<close>: on a destroyed sprite \<^verbatim>\<open>this.scene\<close> is
  \<^verbatim>\<open>undefined\<close> and reading \<open>member\<close> of it throws a \<^verbatim>\<open>TypeError\<close>; otherwise the
  scene does what is asked.
\<close>

definition this_scene :: "string \<Rightarrow> (scene \<Rightarrow> scene) \<Rightarrow> world \<Rightarrow> outcome" where
  "this_scene member f w =
     (if destroyed (self w) then Threw (TypeError member) w else Returned (in_scene f w))"

text \<open>
  \<^verbatim>\<open>const emitter = this.scene.add.particles(x, y, key, cfg)\<close>, followed by the
  statements \<open>rest\<close> that use the emitter.
\<close>

definition this_scene_add_particles ::
  "real \<Rightarrow> real \<Rightarrow> string \<Rightarrow> jsval \<Rightarrow> (nat \<Rightarrow> world \<Rightarrow> outcome) \<Rightarrow> world \<Rightarrow> outcome" where
  "this_scene_add_particles x y key cfg rest w =
     (if destroyed (self w) then Threw (TypeError ''add'') w
      else let (emitter, s') = add_particles x y key cfg (scene w)
           in rest emitter (w\<lparr>scene := s'\<rparr>))"

definition flashRed :: "world \<Rightarrow> outcome" where
  "flashRed w = this_scene ''time'' (delayedCall 100 ClearTint) (setTint 0xff0000 w)"

definition flashGreen :: "world \<Rightarrow> outcome" where
  "flashGreen w = this_scene ''time'' (delayedCall 200 ClearTint) (setTint 0x00ff00 w)"

text \<open>\<^verbatim>\<open>die\<close>: the death tween, then the death particles and their delayed removal.\<close>

definition die :: "world \<Rightarrow> outcome" where
  "die w =
     and_then
       (this_scene ''tweens'' (tweens_add
          \<lparr>targets = TargetThis,
           config = Obj [(''alpha'', Num 0), (''scale'', Num 0),
                         (''rotation'', Num (Math_PI * 2)), (''duration'', Num 500)],
           onComplete = Some DestroySelf\<rparr>) w)
       (\<lambda>w1. this_scene_add_particles (sprite_x (self w1)) (sprite_y (self w1)) ''particle''
          (Obj [(''speed'', Obj [(''min'', Num 100), (''max'', Num 200)]),
                (''scale'', Obj [(''start'', Num 0.5), (''end'', Num 0)]),
                (''blendMode'', Str ''ADD''),
                (''lifespan'', Num 300),
                (''quantity'', Num 20),
                (''tint'', Arr [Num 0xff0000, Num 0xff8800])])
          (\<lambda>emitter. this_scene ''time'' (delayedCall 1000 (DestroyEmitter emitter))) w1)"

text \<open>\<^verbatim>\<open>takeDamage(amount = 1)\<close>.\<close>

definition takeDamage :: "number option \<Rightarrow> world \<Rightarrow> outcome" where
  "takeDamage arg w =
     (if invulnerable (self w) then Returned w
      else
        let amount = param arg (Fin 1);
            w1 = w\<lparr>self := (self w)\<lparr>health := num_sub (health (self w)) amount\<rparr>\<rparr>
        in and_then (flashRed w1)
             (\<lambda>w2. and_then (this_scene ''cameras'' (\<lambda>s. s\<lparr>shakes := shakes s @ [(100, 0.01)]\<rparr>) w2)
             (\<lambda>w3. let w4 = w3\<lparr>self := (self w3)\<lparr>invulnerable := True\<rparr>\<rparr>;
                       w5 = setAlpha 0.5 w4
                   in and_then (this_scene ''time'' (delayedCall 1000 EndInvulnerability) w5)
             (\<lambda>w6. if num_le (health (self w6)) (Fin 0) then die w6 else Returned w6))))"

text \<open>\<^verbatim>\<open>heal(amount = 1)\<close>.\<close>

definition heal :: "number option \<Rightarrow> world \<Rightarrow> outcome" where
  "heal arg w =
     (let amount = param arg (Fin 1);
          w1 = w\<lparr>self := (self w)
                 \<lparr>health := num_min (num_add (health (self w)) amount) (maxHealth (self w))\<rparr>\<rparr>
      in and_then (flashGreen w1)
           (\<lambda>w2. this_scene_add_particles (sprite_x (self w2)) (sprite_y (self w2)) ''particle''
              (Obj [(''speed'', Obj [(''min'', Num 30), (''max'', Num 60)]),
                    (''scale'', Obj [(''start'', Num 0.5), (''end'', Num 0)]),
                    (''blendMode'', Str ''ADD''),
                    (''lifespan'', Num 500),
                    (''quantity'', Num 10),
                    (''tint'', Num 0x00ff00),
                    (''alpha'', Obj [(''start'', Num 0.7), (''end'', Num 0)])])
              (\<lambda>emitter. this_scene ''time'' (delayedCall 500 (DestroyEmitter emitter))) w2))"

text \<open>\<^verbatim>\<open>addTrail(color = 0xffff00)\<close>.\<close>

definition addTrail :: "real option \<Rightarrow> world \<Rightarrow> outcome" where
  "addTrail arg w =
     (let color = param arg 0xffff00;
          w1 = (case trail (self w) of
                  Some old \<Rightarrow> in_scene (emitter_destroy old) w
                | None \<Rightarrow> w)
      in this_scene_add_particles 0 0 ''particle''
           (Obj [(''speed'', Num 0),
                 (''scale'', Obj [(''start'', Num 0.5), (''end'', Num 0)]),
                 (''blendMode'', Str ''ADD''),
                 (''lifespan'', Num 100),
                 (''frequency'', Num 10),
                 (''tint'', Num color),
                 (''alpha'', Obj [(''start'', Num 0.5), (''end'', Num 0)]),
                 (''follow'', This)])
           (\<lambda>emitter w2. Returned (w2\<lparr>self := (self w2)\<lparr>trail := Some emitter\<rparr>\<rparr>)) w1)"

text \<open>
  \<^verbatim>\<open>powerUp(duration = 5000)\<close>. The literals \<open>1.2\<close> and \<open>1.5\<close> are the doubles
  nearest to them.
\<close>

definition powerUp :: "real option \<Rightarrow> world \<Rightarrow> outcome" where
  "powerUp arg w =
     (let duration = param arg 5000;
          w1 = setScale (fl 1.2) w
      in and_then (addTrail (Some 0xffff00) w1)
           (\<lambda>w2. and_then (this_scene ''tweens'' (tweens_add
                     \<lparr>targets = TargetThis,
                      config = Obj [(''scale'', Num 1.3), (''duration'', Num 500),
                                    (''yoyo'', Bool True), (''repeat'', Num (- 1))],
                      onComplete = None\<rparr>) w2)
           (\<lambda>w3. let originalSpeed = speed (self w3);
                     w4 = w3\<lparr>self := (self w3)\<lparr>speed := num_mul (speed (self w3)) (fl 1.5)\<rparr>\<rparr>
                 in this_scene ''time'' (delayedCall duration (EndPowerUp originalSpeed)) w4)))"

text \<open>
  Running a closure that the engine holds. \<^verbatim>\<open>tweens.killTweensOf(this)\<close> drops the
  tweens whose target is the character. \<^verbatim>\<open>this.destroy()\<close> severs the sprite from
  its scene.
\<close>

fun runCallback :: "callback \<Rightarrow> world \<Rightarrow> outcome" where
  "runCallback EndInvulnerability w =
     Returned (setAlpha 1 (w\<lparr>self := (self w)\<lparr>invulnerable := False\<rparr>\<rparr>))"
| "runCallback ClearTint w = Returned (clearTint w)"
| "runCallback (DestroyEmitter i) w = Returned (in_scene (emitter_destroy i) w)"
| "runCallback (EndPowerUp originalSpeed) w =
     (let w1 = setScale (Fin 1) w;
          w2 = w1\<lparr>self := (self w1)\<lparr>speed := originalSpeed\<rparr>\<rparr>;
          w3 = (case trail (self w2) of
                  Some t \<Rightarrow> (in_scene (emitter_destroy t) w2)\<lparr>self := (self w2)\<lparr>trail := None\<rparr>\<rparr>
                | None \<Rightarrow> w2)
      in this_scene ''tweens''
           (\<lambda>s. s\<lparr>tweens := filter (\<lambda>t. targets t \<noteq> TargetThis) (tweens s)\<rparr>) w3)"
| "runCallback DestroySelf w = Returned (w\<lparr>self := (self w)\<lparr>destroyed := True\<rparr>\<rparr>)"

text \<open>The engine fires the \<open>i\<close>-th pending delayed call, if there is one.\<close>

definition fire :: "nat \<Rightarrow> world \<Rightarrow> outcome" where
  "fire i w =
     (let ts = timers (scene w)
      in if i < length ts
         then runCallback (snd (ts ! i)) (in_scene (\<lambda>s. s\<lparr>timers := take i ts @ drop (Suc i) ts\<rparr>) w)
         else Returned w)"

text \<open>
  The \<open>i\<close>-th tween comes to its end, if there is one and it has an \<^verbatim>\<open>onComplete\<close>
  closure: the engine drops the tween and runs the closure. How a tween animates the
  sprite on its way (alpha, scale, rotation) is the engine's business and not modelled.
\<close>

definition complete :: "nat \<Rightarrow> world \<Rightarrow> outcome" where
  "complete i w =
     (let ts = tweens (scene w)
      in if i < length ts
         then (case onComplete (ts ! i) of
                 Some cb \<Rightarrow> runCallback cb (in_scene (\<lambda>s. s\<lparr>tweens := take i ts @ drop (Suc i) ts\<rparr>) w)
               | None \<Rightarrow> Returned w)
         else Returned w)"

text \<open>
  What can happen to a character between its construction and any later moment, as far
  as health is concerned: calls of \<^verbatim>\<open>takeDamage\<close>, \<^verbatim>\<open>heal\<close> and \<^verbatim>\<open>powerUp\<close>,
  delayed calls coming due and tweens coming to their end. A call that throws leaves its
  state behind for the next event.
\<close>

datatype event =
    TakeDamage "number option"
  | Heal "number option"
  | PowerUp "real option"
  | Fire nat
  | Complete nat

fun step :: "world \<Rightarrow> event \<Rightarrow> world" where
  "step w (TakeDamage a) = state_of (takeDamage a w)"
| "step w (Heal a) = state_of (heal a w)"
| "step w (PowerUp d) = state_of (powerUp d w)"
| "step w (Fire i) = state_of (fire i w)"
| "step w (Complete i) = state_of (complete i w)"

definition run :: "event list \<Rightarrow> world \<Rightarrow> world" where
  "run es w = foldl step w es"

fun calls_only :: "event \<Rightarrow> bool" where
  "calls_only (Fire i) = False"
| "calls_only (Complete i) = False"
| "calls_only e = True"

text \<open>
  The amounts of an event are in order: every amount is finite, and an amount of damage
  is not negative.
\<close>

fun amounts_ok :: "event \<Rightarrow> bool" where
  "amounts_ok (TakeDamage a) = (case param a (Fin 1) of Fin v \<Rightarrow> 0 \<le> v | _ \<Rightarrow> False)"
| "amounts_ok (Heal a) = (case param a (Fin 1) of Fin v \<Rightarrow> True | _ \<Rightarrow> False)"
| "amounts_ok e = True"

text \<open>
  The state of health that the methods keep up as long as the amounts are in order:
  health is a number at most \<open>maxHealth\<close>, and \<open>maxHealth\<close> is a double.
\<close>

definition sound :: "character \<Rightarrow> bool" where
  "sound c = (health c \<noteq> NaN \<and> num_le (health c) (maxHealth c) \<and> is_double (maxHealth c))"

text \<open>The health of a configuration, if given, is a double.\<close>

definition config_health_ok :: "CharacterConfig \<Rightarrow> bool" where
  "config_health_ok cfg = (case cfg_health cfg of None \<Rightarrow> True | Some h \<Rightarrow> is_double h)"

text \<open>
  The character of the template's guidelines, \<^verbatim>\<open>new BaseCharacter({ scene: this, x: 100, y: 300 })\<close>,
  in a scene where nothing has been requested yet.
\<close>

definition exampleConfig :: CharacterConfig where
  "exampleConfig =
     \<lparr>cfg_x = 100, cfg_y = 300, cfg_texture = None, cfg_speed = None,
      cfg_jumpHeight = None, cfg_health = None, cfg_scale = None\<rparr>"

definition examplePlayer :: world where
  "examplePlayer = BaseCharacter exampleConfig emptyScene"


section \<open>\<^verbatim>\<open>SpriteFactory\<close>\<close>

text \<open>
  Each operation takes the scene of the factory and returns the object it built with the
  scene as the call leaves it, or the error it raised. The sub-type selectors are strings
  at run time, whatever the declared union types say; a parameter with a default is
  optional.
\<close>

definition createCharacter ::
  "real \<Rightarrow> real \<Rightarrow> string option \<Rightarrow> real option \<Rightarrow> scene \<Rightarrow> error + gameobj \<times> scene" where
  "createCharacter x y type_arg color_arg s =
     (let type = param type_arg ''hero'';
          color = param color_arg 0x00ff00
      in if type = ''hero'' then
           let body = Rectangle 0 0 24 32 (Num color) Undefined;
               head = Circle 0 (- 20) 12 (Num (color + 0x333333));
               eyeL = Circle (- 4) (- 22) 3 (Num 0xffffff);
               eyeR = Circle 4 (- 22) 3 (Num 0xffffff)
           in Inr (Container x y [body, head, eyeL, eyeR], s)
         else if type = ''enemy'' then
           let body = Triangle 0 0 (- 15) 15 15 15 0 (- 15) (Num 0xff0000);
               eyeL = Rectangle (- 5) (- 5) 4 2 (Num 0xffffff) Undefined;
               eyeR = Rectangle 5 (- 5) 4 2 (Num 0xffffff) Undefined
           in Inr (Container x y [body, eyeL, eyeR], s)
         else
           let body = Circle 0 0 16 (Num 0xffcc00);
               eyeL = Circle (- 5) (- 3) 2 (Num 0x000000);
               eyeR = Circle 5 (- 3) 2 (Num 0x000000)
           in Inr (Container x y [body, eyeL, eyeR], s))"

text \<open>The table \<^verbatim>\<open>colors\<close> of \<^verbatim>\<open>createPlatform\<close>.\<close>

definition colors :: "(string \<times> jsval) list" where
  "colors =
    [(''grass'', Obj [(''main'', Num 0x4a7c2e), (''shadow'', Num 0x2d4a1c), (''highlight'', Num 0x6ba644)]),
     (''stone'', Obj [(''main'', Num 0x808080), (''shadow'', Num 0x505050), (''highlight'', Num 0xa0a0a0)]),
     (''ice'', Obj [(''main'', Num 0x87ceeb), (''shadow'', Num 0x4682b4), (''highlight'', Num 0xadd8e6)]),
     (''metal'', Obj [(''main'', Num 0x708090), (''shadow'', Num 0x2f4f4f), (''highlight'', Num 0x778899)])]"

text \<open>
  \<^verbatim>\<open>palette.shadow\<close>, \<^verbatim>\<open>palette.main\<close> and \<^verbatim>\<open>palette.highlight\<close>, where
  \<^verbatim>\<open>palette = colors[style]\<close>. Reading a property of \<^verbatim>\<open>undefined\<close> raises a
  \<^verbatim>\<open>TypeError\<close>. When \<^verbatim>\<open>style\<close> names a member of \<^verbatim>\<open>Object.prototype\<close> the palette
  is that member, which has none of the three properties: they read as \<^verbatim>\<open>undefined\<close>.
\<close>

definition paletteGet :: "jsval \<Rightarrow> string \<Rightarrow> error + jsval" where
  "paletteGet palette key =
     (case palette of
        Undefined \<Rightarrow> Inl (TypeError key)
      | Null \<Rightarrow> Inl (TypeError key)
      | Obj props \<Rightarrow> Inr (objGet props key)
      | _ \<Rightarrow> Inr Undefined)"

definition createPlatform ::
  "real \<Rightarrow> real \<Rightarrow> real \<Rightarrow> real \<Rightarrow> string option \<Rightarrow> scene \<Rightarrow> error + gameobj \<times> scene" where
  "createPlatform x y width height style_arg s =
     (let style = param style_arg ''grass'';
          palette = objGet colors style
      in case paletteGet palette ''shadow'' of
           Inl e \<Rightarrow> Inl e
         | Inr shadowColor \<Rightarrow>
             let shadow = Rectangle 2 2 width height shadowColor (Num 0.5)
             in case paletteGet palette ''main'' of
                  Inl e \<Rightarrow> Inl e
                | Inr mainColor \<Rightarrow>
                    let main = Rectangle 0 0 width height mainColor Undefined
                    in case paletteGet palette ''highlight'' of
                         Inl e \<Rightarrow> Inl e
                       | Inr highlightColor \<Rightarrow>
                           let highlight = Rectangle 0 (- height / 4) (width - 4) 2 highlightColor Undefined
                           in Inr (Container x y [shadow, main, highlight], s))"

text \<open>\<^verbatim>\<open>createCollectible\<close>: a \<^verbatim>\<open>switch\<close> with four cases and no default.\<close>

definition createCollectible ::
  "real \<Rightarrow> real \<Rightarrow> string option \<Rightarrow> scene \<Rightarrow> error + gameobj \<times> scene" where
  "createCollectible x y type_arg s =
     (let type = param type_arg ''coin''
      in if type = ''coin'' then
           let coin = Circle 0 0 10 (Num 0xffd700);
               inner = Circle 0 0 6 (Num 0xffed4e);
               container = Container x y [coin, inner]
           in Inr (container, tweens_add
                \<lparr>targets = TargetObject container,
                 config = Obj [(''rotation'', Num (Math_PI * 2)), (''duration'', Num 3000),
                               (''repeat'', Num (- 1))],
                 onComplete = None\<rparr> s)
         else if type = ''gem'' then
           let gem = Polygon 0 0 ''0,-12 8,-4 8,4 0,12 -8,4 -8,-4'' (Num 0x00ffff);
               shine = Polygon 0 (- 4) ''0,-4 3,-1 3,1 0,4 -3,1 -3,-1'' (Num 0xffffff);
               container = Container x y [gem, shine]
           in Inr (container, tweens_add
                \<lparr>targets = TargetObject container,
                 config = Obj [(''scale'', Num 1.2), (''duration'', Num 1000),
                               (''yoyo'', Bool True), (''repeat'', Num (- 1))],
                 onComplete = None\<rparr> s)
         else if type = ''star'' then
           let star = Star 0 0 5 8 16 (Num 0xffff00);
               container = Container x y [star]
           in Inr (container, tweens_add
                \<lparr>targets = TargetObject star,
                 config = Obj [(''rotation'', Num (Math_PI * 2)), (''duration'', Num 2000),
                               (''repeat'', Num (- 1))],
                 onComplete = None\<rparr> s)
         else if type = ''heart'' then
           let heart = Graphics [FillStyle 0xff0080,
                                 FillEllipse (- 4) (- 4) 10 10,
                                 FillEllipse 4 (- 4) 10 10,
                                 FillTriangle (- 7) 0 7 0 0 10];
               container = Container x y [heart]
           in Inr (container, tweens_add
                \<lparr>targets = TargetObject container,
                 config = Obj [(''scale'', Num 1.1), (''duration'', Num 800),
                               (''yoyo'', Bool True), (''repeat'', Num (- 1)),
                               (''ease'', Str ''Sine.inOut'')],
                 onComplete = None\<rparr> s)
         else Inr (Container x y [], s))"

text \<open>
  \<^verbatim>\<open>createEmoji(x, y, emoji, size = 32)\<close>. The style's \<^verbatim>\<open>fontSize\<close> is the size
  followed by \<^verbatim>\<open>px\<close>; \<^verbatim>\<open>setOrigin(0.5)\<close> moves the origin and not the position.
\<close>

definition createEmoji ::
  "real \<Rightarrow> real \<Rightarrow> string \<Rightarrow> real option \<Rightarrow> scene \<Rightarrow> error + gameobj \<times> scene" where
  "createEmoji x y emoji size_arg s =
     (let sz = param size_arg 32;
          emojiSprite = Text x y emoji sz ''Arial, sans-serif'' 0.5
      in Inr (emojiSprite, s))"

text \<open>The table \<^verbatim>\<open>configs\<close> of \<^verbatim>\<open>createParticleEffect\<close>, built for the position given.\<close>

definition configs :: "real \<Rightarrow> real \<Rightarrow> (string \<times> jsval) list" where
  "configs x y =
    [(''explosion'', Obj
       [(''x'', Num x), (''y'', Num y),
        (''speed'', Obj [(''min'', Num 100), (''max'', Num 300)]),
        (''scale'', Obj [(''start'', Num 1), (''end'', Num 0)]),
        (''blendMode'', Str ''ADD''),
        (''lifespan'', Num 300),
        (''quantity'', Num 20),
        (''tint'', Arr [Num 0xff0000, Num 0xff8800, Num 0xffff00])]),
     (''magic'', Obj
       [(''x'', Num x), (''y'', Num y),
        (''speed'', Obj [(''min'', Num 50), (''max'', Num 150)]),
        (''scale'', Obj [(''start'', Num 0.5), (''end'', Num 0)]),
        (''blendMode'', Str ''ADD''),
        (''lifespan'', Num 1000),
        (''quantity'', Num 5),
        (''frequency'', Num 100),
        (''tint'', Arr [Num 0x00ffff, Num 0xff00ff, Num 0xffff00]),
        (''rotate'', Obj [(''min'', Num 0), (''max'', Num 360)])]),
     (''dust'', Obj
       [(''x'', Num x), (''y'', Num y),
        (''speed'', Obj [(''min'', Num 20), (''max'', Num 40)]),
        (''scale'', Obj [(''start'', Num 0.3), (''end'', Num 0)]),
        (''lifespan'', Num 500),
        (''quantity'', Num 3),
        (''frequency'', Num 50),
        (''tint'', Num 0x808080),
        (''alpha'', Obj [(''start'', Num 0.5), (''end'', Num 0)])]),
     (''splash'', Obj
       [(''x'', Num x), (''y'', Num y),
        (''speed'', Obj [(''min'', Num 100), (''max'', Num 200)]),
        (''angle'', Obj [(''min'', Num 250), (''max'', Num 290)]),
        (''scale'', Obj [(''start'', Num 0.4), (''end'', Num 0)]),
        (''lifespan'', Num 400),
        (''quantity'', Num 10),
        (''tint'', Num 0x0088ff),
        (''gravityY'', Num 300)])]"

text \<open>
  \<^verbatim>\<open>createParticleEffect\<close>: the temporary \<^verbatim>\<open>Graphics\<close> object leaves the texture
  \<^verbatim>\<open>particle\<close> behind; the emitter gets \<^verbatim>\<open>configs[type]\<close>, whatever that is.
\<close>

definition createParticleEffect ::
  "real \<Rightarrow> real \<Rightarrow> string option \<Rightarrow> scene \<Rightarrow> error + gameobj \<times> scene" where
  "createParticleEffect x y type_arg s =
     (let type = param type_arg ''explosion'';
          s1 = generateTexture ''particle'' s;
          (emitter, s2) = add_particles x y ''particle'' (objGet (configs x y) type) s1;
          s3 = (if type = ''explosion'' \<or> type = ''splash''
                then delayedCall 1000 (DestroyEmitter emitter) s2 else s2)
      in Inr (fst (emitters s3 ! emitter), s3))"

text \<open>The sub-types each operation declares.\<close>

definition characterTypes :: "string list" where
  "characterTypes = [''hero'', ''enemy'', ''npc'']"

definition platformStyles :: "string list" where
  "platformStyles = [''grass'', ''stone'', ''ice'', ''metal'']"

definition collectibleTypes :: "string list" where
  "collectibleTypes = [''coin'', ''gem'', ''star'', ''heart'']"

definition particleTypes :: "string list" where
  "particleTypes = [''explosion'', ''magic'', ''dust'', ''splash'']"

text \<open>The call returned normally.\<close>

fun returned :: "error + gameobj \<times> scene \<Rightarrow> bool" where
  "returned (Inr r) = True"
| "returned (Inl e) = False"

text \<open>The call returned an object at the given position.\<close>

fun returned_at :: "real \<times> real \<Rightarrow> error + gameobj \<times> scene \<Rightarrow> bool" where
  "returned_at p (Inr (obj, s)) = (position obj = p)"
| "returned_at p (Inl e) = False"

section \<open>The selector and the objects it shares\<close>

text \<open>
  Objects are shared: \<^verbatim>\<open>GamePresets\<close> is one object that every caller sees, and
  \<^verbatim>\<open>getGamePreset\<close> hands out references into it. To say what a call does to the
  objects of the program, they are put in a store: an object lives at an address, a value
  is a primitive or a reference to an object, and a call takes the store as it finds it
  and returns it as it leaves it. Creating an object (by a literal, or inside a library
  function) adds it at the next free address.
\<close>

datatype val =
    VUndefined
  | VNull
  | VBool bool
  | VNum real
  | VStr string
  | VBuiltin string
  | VThis
  | VRef nat

datatype heap_object = PlainObject "(string \<times> val) list" | ArrayObject "val list"

type_synonym store = "heap_object list"

definition alloc :: "heap_object \<Rightarrow> store \<Rightarrow> val \<times> store" where
  "alloc obj st = (VRef (length st), st @ [obj])"

fun deref :: "store \<Rightarrow> val \<Rightarrow> heap_object option" where
  "deref st (VRef a) = (if a < length st then Some (st ! a) else None)"
| "deref st v = None"

text \<open>
  Evaluating a literal in a store: the nested literals first, in the order they are
  written, then the object that holds them.
\<close>

fun store_val :: "jsval \<Rightarrow> store \<Rightarrow> val \<times> store"
  and store_props :: "(string \<times> jsval) list \<Rightarrow> store \<Rightarrow> (string \<times> val) list \<times> store"
  and store_elems :: "jsval list \<Rightarrow> store \<Rightarrow> val list \<times> store" where
  "store_val Undefined st = (VUndefined, st)"
| "store_val Null st = (VNull, st)"
| "store_val (Bool b) st = (VBool b, st)"
| "store_val (Num n) st = (VNum n, st)"
| "store_val (Str s) st = (VStr s, st)"
| "store_val (Builtin k) st = (VBuiltin k, st)"
| "store_val This st = (VThis, st)"
| "store_val (Obj props) st = (let (ps, st1) = store_props props st in alloc (PlainObject ps) st1)"
| "store_val (Arr xs) st = (let (vs, st1) = store_elems xs st in alloc (ArrayObject vs) st1)"
| "store_props [] st = ([], st)"
| "store_props ((k, j) # rest) st =
     (let (v, st1) = store_val j st; (ps, st2) = store_props rest st1 in ((k, v) # ps, st2))"
| "store_elems [] st = ([], st)"
| "store_elems (j # rest) st =
     (let (v, st1) = store_val j st; (vs, st2) = store_elems rest st1 in (v # vs, st2))"

text \<open>
  Reading a value back out of a store, following references down to the given depth.
\<close>

fun reify :: "nat \<Rightarrow> store \<Rightarrow> val \<Rightarrow> jsval" where
  "reify fuel st VUndefined = Undefined"
| "reify fuel st VNull = Null"
| "reify fuel st (VBool b) = Bool b"
| "reify fuel st (VNum n) = Num n"
| "reify fuel st (VStr s) = Str s"
| "reify fuel st (VBuiltin k) = Builtin k"
| "reify fuel st VThis = This"
| "reify 0 st (VRef a) = Undefined"
| "reify (Suc fuel) st (VRef a) =
     (case deref st (VRef a) of
        Some (PlainObject props) \<Rightarrow> Obj (map (\<lambda>p. (fst p, reify fuel st (snd p))) props)
      | Some (ArrayObject vs) \<Rightarrow> Arr (map (reify fuel st) vs)
      | None \<Rightarrow> Undefined)"

fun truthy_val :: "val \<Rightarrow> bool" where
  "truthy_val VUndefined = False"
| "truthy_val VNull = False"
| "truthy_val (VBool b) = b"
| "truthy_val (VNum n) = (n \<noteq> 0)"
| "truthy_val (VStr s) = (s \<noteq> [])"
| "truthy_val (VBuiltin k) = True"
| "truthy_val VThis = True"
| "truthy_val (VRef a) = True"

text \<open>
  \<^verbatim>\<open>obj[key]\<close> where \<open>obj\<close> refers to an object literal: the own property, else the
  one inherited from \<^verbatim>\<open>Object.prototype\<close>, else \<^verbatim>\<open>undefined\<close>. On anything else the
  read is a \<^verbatim>\<open>TypeError\<close> here (the selector reads properties of its table only).
\<close>

definition get_property :: "val \<Rightarrow> string \<Rightarrow> store \<Rightarrow> (error + val) \<times> store" where
  "get_property obj key st =
     (case deref st obj of
        Some (PlainObject props) \<Rightarrow>
          (case map_of props key of
             Some v \<Rightarrow> (Inr v, st)
           | None \<Rightarrow> (Inr (if key \<in> set Object_prototype then VBuiltin key else VUndefined), st))
      | _ \<Rightarrow> (Inl (TypeError key), st))"

text \<open>
  \<^verbatim>\<open>getGamePreset\<close>, given the reference that the constant \<^verbatim>\<open>GamePresets\<close> holds:
  \<^verbatim>\<open>return GamePresets[gameType] || GamePresets.platformer;\<close>
\<close>

definition getGamePreset_st :: "val \<Rightarrow> string \<Rightarrow> store \<Rightarrow> (error + val) \<times> store" where
  "getGamePreset_st GamePresets_ref gameType st =
     (case get_property GamePresets_ref gameType st of
        (Inl e, st1) \<Rightarrow> (Inl e, st1)
      | (Inr v, st1) \<Rightarrow>
          if truthy_val v then (Inr v, st1)
          else get_property GamePresets_ref ''platformer'' st1)"

text \<open>
  The literal \<^verbatim>\<open>patterns\<close> of \<^verbatim>\<open>detectGameType\<close>, evaluated at each call: six new
  arrays of keywords, then the new object that holds them.
\<close>

fun alloc_keywords :: "(string \<times> string list) list \<Rightarrow> store \<Rightarrow> (string \<times> val) list \<times> store" where
  "alloc_keywords [] st = ([], st)"
| "alloc_keywords ((type, keywords) # rest) st =
     (let (arr, st1) = alloc (ArrayObject (map VStr keywords)) st;
          (props, st2) = alloc_keywords rest st1
      in ((type, arr) # props, st2))"

text \<open>
  \<^verbatim>\<open>Object.entries(obj)\<close>: a new array that holds, for each own property in order, a
  new array of the key and the value.
\<close>

fun alloc_pairs :: "(string \<times> val) list \<Rightarrow> store \<Rightarrow> val list \<times> store" where
  "alloc_pairs [] st = ([], st)"
| "alloc_pairs ((k, v) # rest) st =
     (let (p, st1) = alloc (ArrayObject [VStr k, v]) st;
          (ps, st2) = alloc_pairs rest st1
      in (p # ps, st2))"

definition Object_entries :: "val \<Rightarrow> store \<Rightarrow> val \<times> store" where
  "Object_entries obj st =
     (case deref st obj of
        Some (PlainObject props) \<Rightarrow>
          (let (ps, st1) = alloc_pairs props st in alloc (ArrayObject ps) st1)
      | _ \<Rightarrow> alloc (ArrayObject []) st)"

text \<open>The elements of an array, for \<^verbatim>\<open>for ... of\<close>, destructuring and \<^verbatim>\<open>some\<close>.\<close>

definition elements :: "store \<Rightarrow> val \<Rightarrow> val list" where
  "elements st arr = (case deref st arr of Some (ArrayObject vs) \<Rightarrow> vs | _ \<Rightarrow> [])"

fun includes_val :: "string \<Rightarrow> val \<Rightarrow> bool" where
  "includes_val desc (VStr keyword) = includes_str desc keyword"
| "includes_val desc v = False"

text \<open>
  The loop \<^verbatim>\<open>for (const [type, keywords] of entries)\<close> with its test
  \<^verbatim>\<open>keywords.some(keyword => desc.includes(keyword))\<close>, reading the store.
\<close>

fun scan_st :: "store \<Rightarrow> string \<Rightarrow> val list \<Rightarrow> val option" where
  "scan_st st desc [] = None"
| "scan_st st desc (entry # rest) =
     (case elements st entry of
        [type, keywords] \<Rightarrow>
          if list_ex (includes_val desc) (elements st keywords) then Some type
          else scan_st st desc rest
      | _ \<Rightarrow> scan_st st desc rest)"

definition detectGameType_st :: "string \<Rightarrow> store \<Rightarrow> val \<times> store" where
  "detectGameType_st description st =
     (let desc = toLowerCase description;
          (props, st1) = alloc_keywords patterns st;
          (patterns_ref, st2) = alloc (PlainObject props) st1;
          (entries, st3) = Object_entries patterns_ref st2
      in case scan_st st3 desc (elements st3 entries) of
           Some type \<Rightarrow> (type, st3)
         | None \<Rightarrow> (VStr ''platformer'', st3))"

text \<open>
  The store once the module is loaded: the literal of \<^verbatim>\<open>GamePresets\<close> evaluated in an
  empty store, and the reference that the constant holds.
\<close>

definition GamePresets_ref :: val where
  "GamePresets_ref = fst (store_val (Obj GamePresets) [])"

definition module_store :: store where
  "module_store = snd (store_val (Obj GamePresets) [])"


section \<open>Properties of the preset selector\<close>

lemma startsWith_iff: "startsWith s k \<longleftrightarrow> (\<exists>ss. s = k @ ss)"
  by (induction s k rule: startsWith.induct) auto

lemma includes_iff: "includes_str s k \<longleftrightarrow> (\<exists>ps ss. s = ps @ k @ ss)"
proof (induction s)
  case Nil
  then show ?case by (simp add: startsWith_iff)
next
  case (Cons c cs)
  show ?case
  proof
    assume "includes_str (c # cs) k"
    then consider "startsWith (c # cs) k" | "includes_str cs k" by auto
    then show "\<exists>ps ss. c # cs = ps @ k @ ss"
    proof cases
      case 1
      then obtain ss where "c # cs = k @ ss" by (auto simp: startsWith_iff)
      then have "c # cs = [] @ k @ ss" by simp
      then show ?thesis by blast
    next
      case 2
      then obtain ps ss where "cs = ps @ k @ ss" using Cons.IH by blast
      then have "c # cs = (c # ps) @ k @ ss" by simp
      then show ?thesis by blast
    qed
  next
    assume "\<exists>ps ss. c # cs = ps @ k @ ss"
    then obtain ps ss where eq: "c # cs = ps @ k @ ss" by blast
    show "includes_str (c # cs) k"
    proof (cases ps)
      case Nil
      with eq have "startsWith (c # cs) k" by (auto simp: startsWith_iff)
      then show ?thesis by simp
    next
      case (Cons p ps')
      with eq have "cs = ps' @ k @ ss" by simp
      then have "includes_str cs k" using Cons.IH by blast
      then show ?thesis by simp
    qed
  qed
qed

lemma toLowerCase_append: "toLowerCase (a @ b) = toLowerCase a @ toLowerCase b"
  by (simp add: toLowerCase_def)

lemma map_eq_appendD:
  "map f d = ps @ r \<Longrightarrow> \<exists>a b. d = a @ b \<and> map f a = ps \<and> map f b = r"
  by (metis append_take_drop_id append_eq_conv_conj length_map take_map drop_map)

lemma includes_lower_iff:
  "includes_str (toLowerCase d) (toLowerCase k) \<longleftrightarrow> occurs_ci k d"
proof
  assume "includes_str (toLowerCase d) (toLowerCase k)"
  then obtain ps ss where "toLowerCase d = ps @ toLowerCase k @ ss"
    unfolding includes_iff by blast
  then have "map toLowerCaseChar d = ps @ (toLowerCase k @ ss)"
    by (simp only: toLowerCase_def)
  from map_eq_appendD [OF this] obtain a r where d1: "d = a @ r"
    and r1: "map toLowerCaseChar r = toLowerCase k @ ss" by blast
  from map_eq_appendD [OF r1] obtain s b where "r = s @ b"
    and "map toLowerCaseChar s = toLowerCase k" by blast
  with d1 have "d = a @ s @ b \<and> toLowerCase s = toLowerCase k"
    by (simp only: toLowerCase_def)
  then show "occurs_ci k d" unfolding occurs_ci_def by blast
next
  assume "occurs_ci k d"
  then obtain ps s ss where "d = ps @ s @ ss" and "toLowerCase s = toLowerCase k"
    unfolding occurs_ci_def by blast
  then have "toLowerCase d = toLowerCase ps @ toLowerCase k @ toLowerCase ss"
    by (simp only: toLowerCase_append)
  then show "includes_str (toLowerCase d) (toLowerCase k)"
    unfolding includes_iff by blast
qed

lemmas lower_eval = toLowerCase_def toLowerCaseChar_def char_of_def bit_Suc_0_iff

lemma keywords_lower_all:
  "list_all (\<lambda>e. list_all (\<lambda>k. toLowerCase k = k) (snd e)) patterns"
  by (simp add: patterns_def toLowerCase_def toLowerCaseChar_def)

lemma keywords_lower:
  assumes "i < length patterns" and "k \<in> set (snd (patterns ! i))"
  shows "toLowerCase k = k"
proof -
  have "list_all (\<lambda>k. toLowerCase k = k) (snd (patterns ! i))"
    using keywords_lower_all assms(1) by (simp add: list_all_length)
  with assms(2) show ?thesis by (simp add: list_all_iff)
qed

lemma scanEntries_first:
  "i < length ps \<Longrightarrow> hit desc (ps ! i) \<Longrightarrow> (\<forall>j<i. \<not> hit desc (ps ! j))
   \<Longrightarrow> scanEntries ps desc = Some (fst (ps ! i))"
proof (induction ps arbitrary: i)
  case Nil
  then show ?case by simp
next
  case (Cons e ps)
  obtain t ks where e: "e = (t, ks)" by (cases e)
  show ?case
  proof (cases i)
    case 0
    with Cons.prems e show ?thesis by (simp add: hit_def)
  next
    case (Suc n)
    with Cons.prems have "\<not> hit desc e" by auto
    moreover have "scanEntries ps desc = Some (fst (ps ! n))"
    proof (rule Cons.IH)
      show "n < length ps" using Cons.prems Suc by simp
      show "hit desc (ps ! n)" using Cons.prems Suc by simp
      show "\<forall>j<n. \<not> hit desc (ps ! j)"
      proof (intro allI impI)
        fix j assume "j < n"
        then have "Suc j < i" using Suc by simp
        with Cons.prems(3) have "\<not> hit desc ((e # ps) ! Suc j)" by blast
        then show "\<not> hit desc (ps ! j)" by simp
      qed
    qed
    ultimately show ?thesis using e Suc by (simp add: hit_def)
  qed
qed

lemma scanEntries_none:
  "list_all (\<lambda>e. \<not> hit desc e) ps \<Longrightarrow> scanEntries ps desc = None"
  by (induction ps) (auto simp: hit_def)

lemma genre_matches_hit:
  assumes "i < length patterns"
  shows "genre_matches d i \<longleftrightarrow> hit (toLowerCase d) (patterns ! i)"
proof -
  have "\<And>k. k \<in> set (snd (patterns ! i)) \<Longrightarrow>
          occurs_ci k d = includes_str (toLowerCase d) k"
    using includes_lower_iff [of d] keywords_lower [OF assms] by metis
  then show ?thesis
    unfolding genre_matches_def hit_def list_ex_iff by blast
qed

lemma no_genre_matches_iff:
  "(\<forall>i<length patterns. \<not> genre_matches d i)
     \<longleftrightarrow> list_all (\<lambda>e. \<not> hit (toLowerCase d) e) patterns"
  by (simp add: list_all_length genre_matches_hit)

lemma all_less_2: "(\<forall>j<(2::nat). P j) \<longleftrightarrow> P 0 \<and> P 1"
  by (auto simp: less_2_cases_iff)

text \<open>
  Claim C1. \<^verbatim>\<open>detectGameType\<close> goes through the genres in the order platformer, shooter,
  puzzle, rpg, racing, zen and returns the first genre one of whose keywords occurs
  case-insensitively as a substring of the input; when no keyword of any genre occurs it
  returns \<^verbatim>\<open>platformer\<close>. It returns \<^verbatim>\<open>platformer\<close> on
  \<^verbatim>\<open>I want a jumping platform game\<close> and on the empty string.
\<close>

theorem detectGameType_first_match:
  "(i < length patterns \<and> genre_matches d i \<and> (\<forall>j<i. \<not> genre_matches d j)
      \<longrightarrow> detectGameType d = fst (patterns ! i))
   \<and> ((\<forall>i<length patterns. \<not> genre_matches d i) \<longrightarrow> detectGameType d = ''platformer'')
   \<and> map fst patterns = [''platformer'', ''shooter'', ''puzzle'', ''rpg'', ''racing'', ''zen'']
   \<and> detectGameType ''I want a jumping platform game'' = ''platformer''
   \<and> detectGameType '''' = ''platformer''"
proof (intro conjI impI)
  assume a: "i < length patterns \<and> genre_matches d i \<and> (\<forall>j<i. \<not> genre_matches d j)"
  then have i: "i < length patterns" by simp
  from a have gm: "genre_matches d i" and nm: "\<forall>j<i. \<not> genre_matches d j" by simp_all
  from gm have "hit (toLowerCase d) (patterns ! i)"
    using genre_matches_hit [OF i] by simp
  moreover have "\<forall>j<i. \<not> hit (toLowerCase d) (patterns ! j)"
  proof (intro allI impI)
    fix j assume j: "j < i"
    then have jl: "j < length patterns" using i by simp
    from nm j have "\<not> genre_matches d j" by simp
    then show "\<not> hit (toLowerCase d) (patterns ! j)"
      using genre_matches_hit [OF jl] by simp
  qed
  ultimately have "scanEntries patterns (toLowerCase d) = Some (fst (patterns ! i))"
    using i by (simp add: scanEntries_first)
  then show "detectGameType d = fst (patterns ! i)"
    by (simp add: detectGameType_def)
next
  assume "\<forall>i<length patterns. \<not> genre_matches d i"
  then have "list_all (\<lambda>e. \<not> hit (toLowerCase d) e) patterns"
    by (simp only: no_genre_matches_iff)
  then have "scanEntries patterns (toLowerCase d) = None"
    by (rule scanEntries_none)
  then show "detectGameType d = ''platformer''"
    by (simp add: detectGameType_def)
next
  show "map fst patterns = [''platformer'', ''shooter'', ''puzzle'', ''rpg'', ''racing'', ''zen'']"
    by (simp add: patterns_def)
next
  show "detectGameType ''I want a jumping platform game'' = ''platformer''"
    by (simp add: detectGameType_def patterns_def lower_eval)
next
  show "detectGameType '''' = ''platformer''"
    by (simp add: detectGameType_def patterns_def lower_eval)
qed

text \<open>
  The theorem at work: \<^verbatim>\<open>Let us RACE to Tetris\<close> holds a puzzle keyword and a racing
  keyword, in capitals and not; puzzle comes first in the table.
\<close>

theorem detectGameType_first_match_witness:
  "2 < length patterns
   \<and> genre_matches ''Let us RACE to Tetris'' 2
   \<and> \<not> genre_matches ''Let us RACE to Tetris'' 0
   \<and> \<not> genre_matches ''Let us RACE to Tetris'' 1
   \<and> genre_matches ''Let us RACE to Tetris'' 4
   \<and> detectGameType ''Let us RACE to Tetris'' = ''puzzle''
   \<and> list_all (\<lambda>i. \<not> genre_matches ''Chess'' i) [0..<length patterns]
   \<and> detectGameType ''Chess'' = ''platformer''"
proof -
  have len: "2 < length patterns" "4 < length patterns" by (simp_all add: patterns_def)
  have h2: "genre_matches ''Let us RACE to Tetris'' 2"
    unfolding genre_matches_hit [OF len(1)] by (simp add: hit_def patterns_def lower_eval)
  have h4: "genre_matches ''Let us RACE to Tetris'' 4"
    unfolding genre_matches_hit [OF len(2)] by (simp add: hit_def patterns_def lower_eval)
  have l0: "0 < length patterns" "1 < length patterns" by (simp_all add: patterns_def)
  have n0: "\<not> genre_matches ''Let us RACE to Tetris'' 0"
    unfolding genre_matches_hit [OF l0(1)] by (simp add: hit_def patterns_def lower_eval)
  have n1: "\<not> genre_matches ''Let us RACE to Tetris'' 1"
    unfolding genre_matches_hit [OF l0(2)] by (simp add: hit_def patterns_def lower_eval)
  have before: "\<forall>j<2. \<not> genre_matches ''Let us RACE to Tetris'' j"
    using n0 n1 by (simp add: all_less_2)
  have none: "\<forall>i<length patterns. \<not> genre_matches ''Chess'' i"
    unfolding no_genre_matches_iff by (simp add: hit_def patterns_def lower_eval)
  then have none': "list_all (\<lambda>i. \<not> genre_matches ''Chess'' i) [0..<length patterns]"
    by (simp add: list_all_iff)
  have "detectGameType ''Let us RACE to Tetris'' = fst (patterns ! 2)"
    using detectGameType_first_match [of 2 "''Let us RACE to Tetris''"] len h2 before
    by blast
  then have r1: "detectGameType ''Let us RACE to Tetris'' = ''puzzle''"
    by (simp add: patterns_def)
  have r2: "detectGameType ''Chess'' = ''platformer''"
    using detectGameType_first_match [of 0 "''Chess''"] none by blast
  from len h2 h4 n0 n1 none' r1 r2 show ?thesis by blast
qed

section \<open>Properties of the preset table\<close>

lemma getGamePreset_own:
  "map_of GamePresets gameType = Some v \<Longrightarrow> truthy v \<Longrightarrow> getGamePreset gameType = v"
  by (simp add: getGamePreset_def jsOr_def objGet_def)

lemma map_of_GamePresets_None:
  "gameType \<notin> set genreNames \<Longrightarrow> map_of GamePresets gameType = None"
  by (simp add: GamePresets_def genreNames_def)

lemma getGamePreset_fallback:
  "gameType \<notin> set genreNames \<Longrightarrow> gameType \<notin> set Object_prototype
   \<Longrightarrow> getGamePreset gameType = getGamePreset ''platformer''"
  by (simp add: getGamePreset_def jsOr_def objGet_def
        map_of_GamePresets_None)

lemma getGamePreset_inherited:
  "gameType \<in> set Object_prototype \<Longrightarrow> getGamePreset gameType = Builtin gameType"
proof -
  assume a: "gameType \<in> set Object_prototype"
  then have "gameType \<notin> set genreNames"
    by (auto simp: Object_prototype_def genreNames_def)
  then have "map_of GamePresets gameType = None" by (rule map_of_GamePresets_None)
  with a show ?thesis
    by (simp add: getGamePreset_def jsOr_def objGet_def)
qed

text \<open>
  Claim C2 says that every string other than the six genre names gets the preset of
  \<^verbatim>\<open>platformer\<close>. The lookup \<^verbatim>\<open>GamePresets[gameType]\<close> also finds what the table
  inherits from \<^verbatim>\<open>Object.prototype\<close>: \<^verbatim>\<open>getGamePreset("constructor")\<close> is the
  inherited built-in, which is truthy, so the fallback after \<^verbatim>\<open>||\<close> is not taken and the
  result is no preset at all.
\<close>

theorem getGamePreset_constructor:
  "getGamePreset ''constructor'' = Builtin ''constructor''
   \<and> ''constructor'' \<notin> set genreNames
   \<and> getGamePreset ''constructor'' \<noteq> getGamePreset ''platformer''
   \<and> \<not> fullyPopulated (getGamePreset ''constructor'')"
  by (simp add: getGamePreset_def jsOr_def objGet_def GamePresets_def
        Object_prototype_def genreNames_def fullyPopulated_def)

text \<open>
  Claim C4. For each of the six genre names \<^verbatim>\<open>getGamePreset\<close> returns the entry of
  the table under that name, and the entry is fully populated: its physics (with a
  gravity vector), player, camera and polish groups are all there, each an object.
\<close>

theorem getGamePreset_fullyPopulated:
  "map fst GamePresets = genreNames
   \<and> (g \<in> set genreNames
        \<longrightarrow> map_of GamePresets g = Some (getGamePreset g)
            \<and> fullyPopulated (getGamePreset g))"
proof (intro conjI impI)
  show "map fst GamePresets = genreNames"
    by (simp add: GamePresets_def genreNames_def)
next
  assume "g \<in> set genreNames"
  then show "map_of GamePresets g = Some (getGamePreset g)"
    by (auto simp: genreNames_def getGamePreset_def jsOr_def objGet_def
          GamePresets_def)
next
  assume "g \<in> set genreNames"
  then show "fullyPopulated (getGamePreset g)"
    by (auto simp: genreNames_def getGamePreset_def jsOr_def objGet_def
          GamePresets_def fullyPopulated_def)
qed

theorem getGamePreset_fullyPopulated_witness:
  "''zen'' \<in> set genreNames
   \<and> map_of GamePresets ''zen'' = Some (getGamePreset ''zen'')
   \<and> fullyPopulated (getGamePreset ''zen'')
   \<and> own (own (Some (getGamePreset ''zen'')) ''physics'') ''gravity''
       = Some (Obj [(''x'', Num 0), (''y'', Num 100)])"
proof -
  have g: "''zen'' \<in> set genreNames" by (simp add: genreNames_def)
  have "own (own (Some (getGamePreset ''zen'')) ''physics'') ''gravity''
       = Some (Obj [(''x'', Num 0), (''y'', Num 100)])"
    by (simp add: getGamePreset_def jsOr_def objGet_def GamePresets_def)
  with g getGamePreset_fullyPopulated [of "''zen''"] show ?thesis by blast
qed

text \<open>
  Claim C6. \<^verbatim>\<open>getGamePreset("puzzle").player.speed\<close> is 0: the result is an object, its
  \<^verbatim>\<open>player\<close> property is an object, and the \<^verbatim>\<open>speed\<close> property of that is the number 0.
\<close>

theorem getGamePreset_puzzle_speed:
  "\<exists>preset player. getGamePreset ''puzzle'' = Obj preset
     \<and> objGet preset ''player'' = Obj player \<and> objGet player ''speed'' = Num 0"
  by (simp add: getGamePreset_def jsOr_def objGet_def GamePresets_def)

section \<open>Properties of the selector on the store\<close>

text \<open>Creating objects adds to the store and changes nothing that is there.\<close>

lemma alloc_appends: "snd (alloc obj st) = st @ [obj]"
  by (simp add: alloc_def)

lemma alloc_keywords_appends: "\<exists>new. snd (alloc_keywords t st) = st @ new"
proof (induction t arbitrary: st)
  case Nil
  then show ?case by simp
next
  case (Cons e t)
  obtain type kws where e: "e = (type, kws)" by (cases e)
  obtain props st2 where r: "alloc_keywords t (st @ [ArrayObject (map VStr kws)]) = (props, st2)"
    by (cases "alloc_keywords t (st @ [ArrayObject (map VStr kws)])")
  from Cons [of "st @ [ArrayObject (map VStr kws)]"] r obtain new where
    "st2 = (st @ [ArrayObject (map VStr kws)]) @ new" by auto
  then have "snd (alloc_keywords (e # t) st) = st @ (ArrayObject (map VStr kws) # new)"
    by (simp add: e r alloc_def)
  then show ?case by blast
qed

lemma alloc_pairs_appends: "\<exists>new. snd (alloc_pairs ps st) = st @ new"
proof (induction ps arbitrary: st)
  case Nil
  then show ?case by simp
next
  case (Cons e ps)
  obtain k v where e: "e = (k, v)" by (cases e)
  obtain vs st2 where r: "alloc_pairs ps (st @ [ArrayObject [VStr k, v]]) = (vs, st2)"
    by (cases "alloc_pairs ps (st @ [ArrayObject [VStr k, v]])")
  from Cons [of "st @ [ArrayObject [VStr k, v]]"] r obtain new where
    "st2 = (st @ [ArrayObject [VStr k, v]]) @ new" by auto
  then have "snd (alloc_pairs (e # ps) st) = st @ (ArrayObject [VStr k, v] # new)"
    by (simp add: e r alloc_def)
  then show ?case by blast
qed

lemma Object_entries_appends: "\<exists>new. snd (Object_entries obj st) = st @ new"
proof (cases "\<exists>props. deref st obj = Some (PlainObject props)")
  case True
  then obtain props where d: "deref st obj = Some (PlainObject props)" by blast
  obtain vs st1 where r: "alloc_pairs props st = (vs, st1)" by (cases "alloc_pairs props st")
  from alloc_pairs_appends [of props st] r obtain new where "st1 = st @ new" by auto
  then have "snd (Object_entries obj st) = st @ (new @ [ArrayObject vs])"
    by (simp add: Object_entries_def d r alloc_def)
  then show ?thesis by blast
next
  case False
  then have "snd (Object_entries obj st) = st @ [ArrayObject []]"
    by (auto simp: Object_entries_def alloc_def split: option.splits heap_object.splits)
  then show ?thesis by blast
qed

lemma detect_appends: "\<exists>new. snd (detectGameType_st d st) = st @ new"
proof -
  obtain props st1 where a: "alloc_keywords patterns st = (props, st1)"
    by (cases "alloc_keywords patterns st")
  from alloc_keywords_appends [of patterns st] a obtain n1 where 1: "st1 = st @ n1" by auto
  obtain r st3 where b: "Object_entries (VRef (length st1)) (st1 @ [PlainObject props]) = (r, st3)"
    by (cases "Object_entries (VRef (length st1)) (st1 @ [PlainObject props])")
  from Object_entries_appends [of "VRef (length st1)" "st1 @ [PlainObject props]"] b
  obtain n3 where 3: "st3 = (st1 @ [PlainObject props]) @ n3" by auto
  have "snd (detectGameType_st d st) = st3"
    by (simp add: detectGameType_st_def Let_def a b alloc_def split: option.splits)
  with 1 3 have "snd (detectGameType_st d st) = st @ (n1 @ [PlainObject props] @ n3)" by simp
  then show ?thesis by blast
qed

lemma detect_frame: "take (length st) (snd (detectGameType_st d st)) = st"
  using detect_appends [of d st] by auto

lemma deref_append: "deref st v = Some obj \<Longrightarrow> deref (st @ new) v = Some obj"
  by (cases v) (auto simp: nth_append split: if_splits)

lemma detect_refines: "fst (detectGameType_st d st) = VStr (detectGameType d)"
  by (simp add: detectGameType_st_def detectGameType_def patterns_def alloc_def Object_entries_def
     elements_def Let_def nth_append split: prod.splits)

lemma getGamePreset_st_store: "snd (getGamePreset_st tbl g st) = st"
  by (simp add: getGamePreset_st_def get_property_def
        split: option.splits heap_object.splits prod.splits sum.splits)

lemma getGamePreset_st_append:
  "deref st tbl = Some (PlainObject props) \<Longrightarrow>
     fst (getGamePreset_st tbl g (st @ new)) = fst (getGamePreset_st tbl g st)"
  using deref_append [of st tbl "PlainObject props" new]
  by (simp add: getGamePreset_st_def get_property_def split: option.splits)

text \<open>The module's store, and what the lookup finds in it.\<close>

lemma module_eval:
  "store_val (Obj GamePresets) [] =
     (VRef 36,
      [PlainObject [(''x'', VNum 0), (''y'', VNum 980)],
      PlainObject [(''gravity'', VRef 0)],
      PlainObject
      [(''speed'', VNum 200), (''jumpHeight'', VNum 400),
      (''health'', VNum 3)],
      PlainObject
      [(''lerp'', VNum (1 / 10)), (''deadzone'', VNum 50),
      (''smooth'', VBool True)],
      PlainObject
      [(''screenShake'', VBool True), (''particles'', VBool True),
      (''tweenStyle'', VStr ''aggressive''), (''soundLevel'', VStr ''many'')],
      PlainObject
      [(''physics'', VRef 1), (''player'', VRef 2), (''camera'', VRef 3),
      (''polish'', VRef 4)],
      PlainObject [(''x'', VNum 0), (''y'', VNum 0)],
      PlainObject [(''gravity'', VRef 6)],
      PlainObject
      [(''speed'', VNum 300), (''fireRate'', VNum 100),
      (''health'', VNum 100)],
      PlainObject [(''smooth'', VBool True), (''zoom'', VNum 1)],
      PlainObject
      [(''screenShake'', VBool True), (''particles'', VBool True),
      (''tweenStyle'', VStr ''aggressive''), (''soundLevel'', VStr ''many'')],
      PlainObject
      [(''physics'', VRef 7), (''player'', VRef 8), (''camera'', VRef 9),
      (''polish'', VRef 10)],
      PlainObject [(''x'', VNum 0), (''y'', VNum 0)],
      PlainObject [(''gravity'', VRef 12)], PlainObject [(''speed'', VNum 0)],
      PlainObject [(''smooth'', VBool False), (''zoom'', VNum 1)],
      PlainObject
      [(''screenShake'', VBool False), (''particles'', VStr ''subtle''),
      (''tweenStyle'', VStr ''smooth''), (''soundLevel'', VStr ''moderate'')],
      PlainObject
      [(''physics'', VRef 13), (''player'', VRef 14), (''camera'', VRef 15),
      (''polish'', VRef 16)],
      PlainObject [(''x'', VNum 0), (''y'', VNum 0)],
      PlainObject [(''gravity'', VRef 18)],
      PlainObject [(''speed'', VNum 150), (''health'', VNum 100)],
      PlainObject
      [(''lerp'', VNum (2 / 25)), (''smooth'', VBool True),
      (''zoom'', VNum 2)],
      PlainObject
      [(''screenShake'', VBool False), (''particles'', VStr ''subtle''),
      (''tweenStyle'', VStr ''smooth''), (''soundLevel'', VStr ''moderate'')],
      PlainObject
      [(''physics'', VRef 19), (''player'', VRef 20), (''camera'', VRef 21),
      (''polish'', VRef 22)],
      PlainObject [(''x'', VNum 0), (''y'', VNum 0)],
      PlainObject [(''gravity'', VRef 24)], PlainObject [(''speed'', VNum 400)],
      PlainObject [(''lerp'', VNum (3 / 20)), (''smooth'', VBool True)],
      PlainObject
      [(''screenShake'', VBool True), (''particles'', VBool True),
      (''tweenStyle'', VStr ''aggressive''), (''soundLevel'', VStr ''many'')],
      PlainObject
      [(''physics'', VRef 25), (''player'', VRef 26), (''camera'', VRef 27),
      (''polish'', VRef 28)],
      PlainObject [(''x'', VNum 0), (''y'', VNum 100)],
      PlainObject [(''gravity'', VRef 30)], PlainObject [(''speed'', VNum 100)],
      PlainObject
      [(''lerp'', VNum (1 / 20)), (''smooth'', VBool True),
      (''zoom'', VNum 1)],
      PlainObject
      [(''screenShake'', VBool False), (''particles'', VBool False),
      (''tweenStyle'', VStr ''gentle''), (''soundLevel'', VStr ''minimal'')],
      PlainObject
      [(''physics'', VRef 31), (''player'', VRef 32), (''camera'', VRef 33),
      (''polish'', VRef 34)],
      PlainObject
      [(''platformer'', VRef 5), (''shooter'', VRef 11), (''puzzle'', VRef 17),
      (''rpg'', VRef 23), (''racing'', VRef 29), (''zen'', VRef 35)]])"
  by (simp add: GamePresets_def alloc_def Let_def)

lemma GamePresets_ref_eq: "GamePresets_ref = VRef 36"
  unfolding GamePresets_ref_def module_eval by simp

lemma module_table:
  "deref module_store GamePresets_ref =
     Some (PlainObject [(''platformer'', VRef 5), (''shooter'', VRef 11), (''puzzle'', VRef 17),
        (''rpg'', VRef 23), (''racing'', VRef 29), (''zen'', VRef 35)])"
  unfolding module_store_def GamePresets_ref_eq module_eval by simp

lemma module_entries:
  "reify 3 module_store (VRef 5) = getGamePreset ''platformer''"
  "reify 3 module_store (VRef 11) = getGamePreset ''shooter''"
  "reify 3 module_store (VRef 17) = getGamePreset ''puzzle''"
  "reify 3 module_store (VRef 23) = getGamePreset ''rpg''"
  "reify 3 module_store (VRef 29) = getGamePreset ''racing''"
  "reify 3 module_store (VRef 35) = getGamePreset ''zen''"
  unfolding module_store_def module_eval
  by (simp_all add: eval_nat_numeral getGamePreset_def jsOr_def objGet_def
        GamePresets_def)

lemma getGamePreset_st_module:
  "map_sum id (reify 3 module_store) (fst (getGamePreset_st GamePresets_ref g module_store))
     = Inr (getGamePreset g)"
proof (cases "g \<in> set genreNames")
  case True
  then show ?thesis
    by (auto simp: genreNames_def getGamePreset_st_def get_property_def module_table module_entries)
next
  case False
  then have n: "g \<noteq> ''platformer'' \<and> g \<noteq> ''shooter'' \<and> g \<noteq> ''puzzle'' \<and> g \<noteq> ''rpg''
      \<and> g \<noteq> ''racing'' \<and> g \<noteq> ''zen''"
    by (simp add: genreNames_def)
  show ?thesis
  proof (cases "g \<in> set Object_prototype")
    case True
    then show ?thesis using n
      by (simp add: getGamePreset_st_def get_property_def module_table getGamePreset_inherited)
  next
    case False
    then have "getGamePreset g = getGamePreset ''platformer''"
      using \<open>g \<notin> set genreNames\<close> by (simp add: getGamePreset_fallback)
    then show ?thesis using False n
      by (simp add: getGamePreset_st_def get_property_def module_table module_entries)
  qed
qed

text \<open>
  Claim C7. \<^verbatim>\<open>detectGameType\<close> and \<^verbatim>\<open>getGamePreset\<close> are deterministic and free of
  side effects. In whatever store it is called, \<^verbatim>\<open>getGamePreset\<close> returns the store as
  it found it, and a second call returns what the first did. \<^verbatim>\<open>detectGameType\<close>
  creates its keyword table anew and leaves every object that was there before as it was:
  \<^verbatim>\<open>GamePresets\<close>, and the keyword tables that earlier calls created. Its result is
  that of the function of the description alone, so a second call, in the store that the
  first has left, returns the same; and a lookup in \<^verbatim>\<open>GamePresets\<close> finds after the
  call what it found before. On the store of the module the lookup returns what
  \<^verbatim>\<open>getGamePreset\<close>, as a function of the declared table, does.
\<close>

theorem selector_pure:
  "snd (getGamePreset_st tbl g st) = st
   \<and> fst (getGamePreset_st tbl g (snd (getGamePreset_st tbl g st))) = fst (getGamePreset_st tbl g st)
   \<and> take (length st) (snd (detectGameType_st d st)) = st
   \<and> take (length (snd (detectGameType_st d st)))
          (snd (detectGameType_st d' (snd (detectGameType_st d st))))
       = snd (detectGameType_st d st)
   \<and> fst (detectGameType_st d st) = VStr (detectGameType d)
   \<and> fst (detectGameType_st d (snd (detectGameType_st d st))) = fst (detectGameType_st d st)
   \<and> (deref st tbl = Some (PlainObject props)
        \<longrightarrow> deref (snd (detectGameType_st d st)) tbl = Some (PlainObject props)
            \<and> fst (getGamePreset_st tbl g (snd (detectGameType_st d st)))
                = fst (getGamePreset_st tbl g st))
   \<and> map_sum id (reify 3 module_store) (fst (getGamePreset_st GamePresets_ref g module_store))
       = Inr (getGamePreset g)"
proof (intro conjI impI)
  show "snd (getGamePreset_st tbl g st) = st" by (rule getGamePreset_st_store)
  then show "fst (getGamePreset_st tbl g (snd (getGamePreset_st tbl g st)))
               = fst (getGamePreset_st tbl g st)" by simp
  show "take (length st) (snd (detectGameType_st d st)) = st" by (rule detect_frame)
  show "take (length (snd (detectGameType_st d st)))
          (snd (detectGameType_st d' (snd (detectGameType_st d st))))
       = snd (detectGameType_st d st)" by (rule detect_frame)
  show "fst (detectGameType_st d st) = VStr (detectGameType d)" by (rule detect_refines)
  show "fst (detectGameType_st d (snd (detectGameType_st d st))) = fst (detectGameType_st d st)"
    by (simp only: detect_refines)
  show "map_sum id (reify 3 module_store) (fst (getGamePreset_st GamePresets_ref g module_store))
       = Inr (getGamePreset g)" by (rule getGamePreset_st_module)
next
  assume t: "deref st tbl = Some (PlainObject props)"
  from detect_appends [of d st] obtain new where n: "snd (detectGameType_st d st) = st @ new"
    by blast
  from t show "deref (snd (detectGameType_st d st)) tbl = Some (PlainObject props)"
    unfolding n by (rule deref_append)
next
  assume t: "deref st tbl = Some (PlainObject props)"
  from detect_appends [of d st] obtain new where n: "snd (detectGameType_st d st) = st @ new"
    by blast
  from t show "fst (getGamePreset_st tbl g (snd (detectGameType_st d st)))
                = fst (getGamePreset_st tbl g st)"
    unfolding n by (rule getGamePreset_st_append)
qed

text \<open>
  On the store of the module: the lookup of \<^verbatim>\<open>zen\<close> finds the same object before and
  after a call of \<^verbatim>\<open>detectGameType\<close>, which leaves the 37 objects of the table alone.
\<close>

theorem selector_pure_witness:
  "deref module_store GamePresets_ref =
     Some (PlainObject [(''platformer'', VRef 5), (''shooter'', VRef 11), (''puzzle'', VRef 17),
        (''rpg'', VRef 23), (''racing'', VRef 29), (''zen'', VRef 35)])
   \<and> fst (getGamePreset_st GamePresets_ref ''zen'' module_store) = Inr (VRef 35)
   \<and> fst (getGamePreset_st GamePresets_ref ''zen''
             (snd (detectGameType_st ''Let us RACE to Tetris'' module_store))) = Inr (VRef 35)
   \<and> fst (detectGameType_st ''Let us RACE to Tetris'' module_store) = VStr ''puzzle''
   \<and> length module_store = 37
   \<and> take 37 (snd (detectGameType_st ''Let us RACE to Tetris'' module_store)) = module_store"
proof -
  note inst = selector_pure [of GamePresets_ref "''zen''" module_store
      "''Let us RACE to Tetris''" "''Let us RACE to Tetris''"
      "[(''platformer'', VRef 5), (''shooter'', VRef 11), (''puzzle'', VRef 17),
        (''rpg'', VRef 23), (''racing'', VRef 29), (''zen'', VRef 35)]"]
  have z: "fst (getGamePreset_st GamePresets_ref ''zen'' module_store) = Inr (VRef 35)"
    by (simp add: getGamePreset_st_def get_property_def module_table)
  have l: "length module_store = 37"
    unfolding module_store_def module_eval by simp
  have p: "detectGameType ''Let us RACE to Tetris'' = ''puzzle''"
    by (simp add: detectGameType_def patterns_def lower_eval)
  from inst module_table z have
    "fst (getGamePreset_st GamePresets_ref ''zen''
             (snd (detectGameType_st ''Let us RACE to Tetris'' module_store))) = Inr (VRef 35)"
    by simp
  moreover from inst p have
    "fst (detectGameType_st ''Let us RACE to Tetris'' module_store) = VStr ''puzzle''"
    by simp
  moreover from inst l have
    "take 37 (snd (detectGameType_st ''Let us RACE to Tetris'' module_store)) = module_store"
    by simp
  ultimately show ?thesis using module_table z l by blast
qed


section \<open>Properties of rounding\<close>

lemma rhe_int [simp]: "roundHalfEven (of_int n) = n"
  by (simp add: roundHalfEven_def)

lemma rhe_mono: "q \<le> q' \<Longrightarrow> roundHalfEven q \<le> roundHalfEven q'"
proof -
  assume a: "q \<le> q'"
  then have fl: "\<lfloor>q\<rfloor> \<le> \<lfloor>q'\<rfloor>" by (rule floor_mono)
  show ?thesis
  proof (cases "\<lfloor>q\<rfloor> = \<lfloor>q'\<rfloor>")
    case True
    with a show ?thesis by (auto simp: roundHalfEven_def Let_def)
  next
    case False
    with fl have "\<lfloor>q\<rfloor> + 1 \<le> \<lfloor>q'\<rfloor>" by simp
    moreover have "roundHalfEven q \<le> \<lfloor>q\<rfloor> + 1" by (simp add: roundHalfEven_def Let_def)
    moreover have "\<lfloor>q'\<rfloor> \<le> roundHalfEven q'" by (simp add: roundHalfEven_def Let_def)
    ultimately show ?thesis by linarith
  qed
qed

lemma rhe_minus: "roundHalfEven (- q) = - roundHalfEven q"
proof (cases "q = of_int \<lfloor>q\<rfloor>")
  case True
  then obtain n where "q = of_int n" by blast
  then have "- q = of_int (- n)" by simp
  then show ?thesis using \<open>q = of_int n\<close> by (simp only: rhe_int)
next
  case False
  then have "\<lceil>q\<rceil> = \<lfloor>q\<rfloor> + 1" by (simp add: ceiling_altdef)
  then have fm: "\<lfloor>- q\<rfloor> = - \<lfloor>q\<rfloor> - 1" by (simp add: ceiling_def)
  have d: "0 < q - of_int \<lfloor>q\<rfloor>" using False by (simp add: less_le)
  show ?thesis unfolding roundHalfEven_def Let_def fm
    using d by (auto simp: algebra_simps)
qed

lemma rhe_nonneg: "0 \<le> q \<Longrightarrow> 0 \<le> roundHalfEven q"
  using rhe_mono [of 0 q] rhe_int [of 0] by simp

lemma rhe_le_int: "q \<le> of_int n \<Longrightarrow> roundHalfEven q \<le> n"
  using rhe_mono [of q "of_int n"] by simp

lemma rhe_ge_int: "of_int n \<le> q \<Longrightarrow> n \<le> roundHalfEven q"
  using rhe_mono [of "of_int n" q] by simp

lemma searchExponent_range: "- 1022 \<le> searchExponent n a \<and> searchExponent n a \<le> int n - 1022"
  by (induction n) auto

lemma searchExponent_lower:
  "- 1022 < searchExponent n a \<Longrightarrow> 2 powi (searchExponent n a) \<le> a"
  by (induction n) (auto split: if_splits)

lemma searchExponent_upper:
  "searchExponent n a < int n - 1022 \<Longrightarrow> a < 2 powi (searchExponent n a + 1)"
proof (induction n)
  case 0
  then show ?case by simp
next
  case (Suc n)
  show ?case
  proof (cases "2 powi (int n - 1021) \<le> a")
    case True
    with Suc.prems show ?thesis by simp
  next
    case False
    then have e: "searchExponent (Suc n) a = searchExponent n a" by simp
    show ?thesis
    proof (cases "searchExponent n a < int n - 1022")
      case True
      then show ?thesis using Suc.IH e by simp
    next
      case False
      with searchExponent_range [of n a] have "searchExponent n a = int n - 1022" by simp
      then have "searchExponent (Suc n) a + 1 = int n - 1021" using e by simp
      moreover have "a < 2 powi (int n - 1021)"
        using \<open>\<not> 2 powi (int n - 1021) \<le> a\<close> by simp
      ultimately show ?thesis by (simp only:)
    qed
  qed
qed

lemma exponent_range: "- 1022 \<le> exponent x \<and> exponent x \<le> 1023"
  using searchExponent_range [of 2045 "\<bar>x\<bar>"] by (simp add: exponent_def)

lemma exponent_lower: "- 1022 < exponent x \<Longrightarrow> 2 powi (exponent x) \<le> \<bar>x\<bar>"
  unfolding exponent_def by (rule searchExponent_lower)

lemma exponent_upper: "exponent x < 1023 \<Longrightarrow> \<bar>x\<bar> < 2 powi (exponent x + 1)"
  unfolding exponent_def using searchExponent_upper [of 2045 "\<bar>x\<bar>"] by simp

lemma exponent_minus [simp]: "exponent (- x) = exponent x"
  by (simp add: exponent_def)

lemma exponent_mono: "\<bar>x\<bar> \<le> \<bar>y\<bar> \<Longrightarrow> exponent x \<le> exponent y"
proof (rule ccontr)
  assume a: "\<bar>x\<bar> \<le> \<bar>y\<bar>" and "\<not> exponent x \<le> exponent y"
  then have lt: "exponent y < exponent x" by simp
  with exponent_range [of y] have "- 1022 < exponent x" by linarith
  then have 1: "2 powi (exponent x) \<le> \<bar>x\<bar>" by (rule exponent_lower)
  from lt exponent_range [of x] have "exponent y < 1023" by linarith
  then have 2: "\<bar>y\<bar> < 2 powi (exponent y + 1)" by (rule exponent_upper)
  from lt have "(2::real) powi (exponent y + 1) \<le> 2 powi (exponent x)"
    by (intro power_int_increasing) auto
  with 1 2 a show False by linarith
qed

lemma nearest_minus: "nearest (- x) = - nearest x"
  by (simp add: nearest_def Let_def rhe_minus)

lemma nearest_nonneg: "0 \<le> x \<Longrightarrow> 0 \<le> nearest x"
  by (simp add: nearest_def Let_def rhe_nonneg)

lemma ulp_times: "(2::real) ^ 52 * 2 powi (e - 52) = 2 powi e"
  by (simp add: power_int_diff)

lemma nearest_ge_binade:
  assumes "0 \<le> x" and "- 1022 < exponent x"
  shows "2 powi (exponent x) \<le> nearest x"
proof -
  let ?u = "(2::real) powi (exponent x - 52)"
  have u: "0 < ?u" by simp
  from assms have "2 powi (exponent x) \<le> x" using exponent_lower [of x] by simp
  then have "2 ^ 52 * ?u \<le> x" by (simp only: ulp_times)
  then have "of_int (2 ^ 52) \<le> x / ?u" using u by (simp add: le_divide_eq)
  then have "2 ^ 52 \<le> roundHalfEven (x / ?u)" by (rule rhe_ge_int)
  then have "(2::real) ^ 52 \<le> of_int (roundHalfEven (x / ?u))"
    by (metis of_int_le_iff of_int_numeral of_int_power)
  then have "2 ^ 52 * ?u \<le> of_int (roundHalfEven (x / ?u)) * ?u"
    using u by (simp only: mult_le_cancel_right_pos)
  then show ?thesis by (simp only: ulp_times nearest_def Let_def)
qed

lemma nearest_le_binade:
  assumes "0 \<le> x" and "exponent x < 1023"
  shows "nearest x \<le> 2 powi (exponent x + 1)"
proof -
  let ?u = "(2::real) powi (exponent x - 52)"
  have u: "0 < ?u" by simp
  from assms have "x < 2 powi (exponent x + 1)" using exponent_upper [of x] by simp
  moreover have "(2::real) powi (exponent x + 1) = 2 ^ 53 * ?u"
  proof -
    have "(2::real) ^ 53 * ?u = 2 * (2 ^ 52 * ?u)" by simp
    also have "\<dots> = 2 * 2 powi (exponent x)" by (simp only: ulp_times)
    also have "\<dots> = 2 powi (exponent x + 1)" by (simp add: power_int_add)
    finally show ?thesis by simp
  qed
  ultimately have "x \<le> 2 ^ 53 * ?u" by simp
  then have "x / ?u \<le> of_int (2 ^ 53)" using u by (simp add: divide_le_eq)
  then have "roundHalfEven (x / ?u) \<le> 2 ^ 53" by (rule rhe_le_int)
  then have "of_int (roundHalfEven (x / ?u)) \<le> (2::real) ^ 53"
    by (metis of_int_le_iff of_int_numeral of_int_power)
  then have "of_int (roundHalfEven (x / ?u)) * ?u \<le> 2 ^ 53 * ?u"
    using u by (simp only: mult_le_cancel_right_pos)
  with \<open>(2::real) powi (exponent x + 1) = 2 ^ 53 * ?u\<close> show ?thesis
    by (simp only: nearest_def Let_def)
qed

lemma nearest_mono_nonneg:
  assumes "0 \<le> x" and "x \<le> y"
  shows "nearest x \<le> nearest y"
proof -
  from assms have y: "0 \<le> y" by simp
  from assms have "\<bar>x\<bar> \<le> \<bar>y\<bar>" by simp
  then have e: "exponent x \<le> exponent y" by (rule exponent_mono)
  show ?thesis
  proof (cases "exponent x = exponent y")
    case True
    let ?u = "(2::real) powi (exponent y - 52)"
    have u: "0 < ?u" by simp
    from assms(2) have "x / ?u \<le> y / ?u" using u by (simp add: divide_right_mono)
    then have "roundHalfEven (x / ?u) \<le> roundHalfEven (y / ?u)" by (rule rhe_mono)
    then have "of_int (roundHalfEven (x / ?u)) * ?u \<le> of_int (roundHalfEven (y / ?u)) * ?u"
      using u by simp
    then show ?thesis using True by (simp add: nearest_def Let_def)
  next
    case False
    with e have lt: "exponent x < exponent y" by simp
    with exponent_range [of y] have "exponent x < 1023" by linarith
    with assms(1) have 1: "nearest x \<le> 2 powi (exponent x + 1)" by (rule nearest_le_binade)
    from lt exponent_range [of x] have "- 1022 < exponent y" by linarith
    with y have 2: "2 powi (exponent y) \<le> nearest y" by (rule nearest_ge_binade)
    from lt have "(2::real) powi (exponent x + 1) \<le> 2 powi (exponent y)"
      by (intro power_int_increasing) auto
    with 1 2 show ?thesis by linarith
  qed
qed

text \<open>Rounding is monotone.\<close>

lemma nearest_mono: "x \<le> y \<Longrightarrow> nearest x \<le> nearest y"
proof -
  assume a: "x \<le> y"
  consider "0 \<le> x" | "y \<le> 0" | "x < 0" "0 < y" by linarith
  then show ?thesis
  proof cases
    case 1
    then show ?thesis using a by (rule nearest_mono_nonneg)
  next
    case 2
    then have "0 \<le> - y" and "- y \<le> - x" using a by simp_all
    then have "nearest (- y) \<le> nearest (- x)" by (rule nearest_mono_nonneg)
    then show ?thesis by (simp add: nearest_minus)
  next
    case 3
    then have "0 \<le> nearest y" by (simp add: nearest_nonneg)
    moreover from 3 have "0 \<le> nearest (- x)" by (simp add: nearest_nonneg)
    then have "nearest x \<le> 0" by (simp add: nearest_minus)
    ultimately show ?thesis by simp
  qed
qed

lemma fl_mono: "x \<le> y \<Longrightarrow> num_le (fl x) (fl y)"
  using nearest_mono [of x y] by (auto simp: fl_def Let_def)

lemma fl_not_NaN [simp]: "fl x \<noteq> NaN"
  by (simp add: fl_def Let_def)

text \<open>The integers below \<open>2 ^ 53\<close> in magnitude are doubles.\<close>

lemma nearest_of_int:
  assumes "\<bar>n\<bar> < 2 ^ 53"
  shows "nearest (of_int n) = of_int n"
proof (cases "n = 0")
  case True
  then show ?thesis using rhe_int [of 0] by (simp add: nearest_def)
next
  case False
  let ?e = "exponent (of_int n)"
  have lo: "0 \<le> ?e"
  proof (rule ccontr)
    assume "\<not> 0 \<le> ?e"
    then have neg: "?e < 0" by simp
    then have "?e < 1023" by simp
    then have "\<bar>of_int n :: real\<bar> < 2 powi (?e + 1)" by (rule exponent_upper)
    moreover from neg have "(2::real) powi (?e + 1) \<le> 2 powi 0"
      by (intro power_int_increasing) auto
    ultimately have "\<bar>of_int n :: real\<bar> < 1" by simp
    then have "\<bar>n\<bar> < 1" by (metis of_int_abs of_int_less_1_iff)
    with False show False by simp
  qed
  have hi: "?e \<le> 52"
  proof (rule ccontr)
    assume "\<not> ?e \<le> 52"
    then have big: "53 \<le> ?e" by simp
    then have "- 1022 < ?e" by simp
    then have "2 powi ?e \<le> \<bar>of_int n :: real\<bar>" by (rule exponent_lower)
    moreover from big have "(2::real) powi 53 \<le> 2 powi ?e"
      by (intro power_int_increasing) auto
    ultimately have "(2::real) ^ 53 \<le> \<bar>of_int n\<bar>" by simp
    then have "(2::int) ^ 53 \<le> \<bar>n\<bar>"
      by (metis of_int_abs of_int_le_iff of_int_numeral of_int_power)
    with assms show False by simp
  qed
  define k where "k = nat (52 - ?e)"
  from lo hi have ek: "?e - 52 = - int k" by (simp add: k_def)
  have u: "(2::real) powi (?e - 52) = 1 / 2 ^ k"
    by (simp add: ek power_int_minus_divide)
  have "of_int n / (1 / 2 ^ k) = (of_int (n * 2 ^ k) :: real)" by simp
  then have "roundHalfEven (of_int n / (1 / 2 ^ k)) = n * 2 ^ k" by (simp only: rhe_int)
  then show ?thesis by (simp add: nearest_def Let_def u)
qed

lemma fl_of_int: "\<bar>n\<bar> < 2 ^ 53 \<Longrightarrow> fl (of_int n) = Fin (of_int n)"
proof -
  assume a: "\<bar>n\<bar> < 2 ^ 53"
  then have n: "nearest (of_int n) = of_int n" by (rule nearest_of_int)
  from a have "\<bar>n\<bar> < 2 ^ 1024" by simp
  then have "\<bar>of_int n :: real\<bar> < 2 ^ 1024"
    by (metis of_int_abs of_int_less_iff of_int_numeral of_int_power)
  then have "\<not> 2 ^ 1024 \<le> (of_int n :: real)" and "\<not> (of_int n :: real) \<le> - (2 ^ 1024)"
    by (simp_all only: abs_less_iff not_le) simp_all
  then show ?thesis by (simp only: fl_def n Let_def if_False)
qed

lemma fl_2: "fl 2 = Fin 2"
  using fl_of_int [of 2] by simp

lemma fl_3: "fl 3 = Fin 3"
  using fl_of_int [of 3] by simp

lemma fl_8: "fl 8 = Fin 8"
  using fl_of_int [of 8] by simp

text \<open>Comparison and minimum.\<close>

lemma num_le_NaN_right [simp]: "\<not> num_le a NaN"
  by (cases a) simp_all

lemma num_le_refl: "n \<noteq> NaN \<Longrightarrow> num_le n n"
  by (cases n) simp_all

lemma num_min_le: "a \<noteq> NaN \<Longrightarrow> b \<noteq> NaN \<Longrightarrow> num_le (num_min a b) b"
  by (cases a; cases b) simp_all

lemma num_min_not_NaN: "a \<noteq> NaN \<Longrightarrow> b \<noteq> NaN \<Longrightarrow> num_min a b \<noteq> NaN"
  by (cases a; cases b) simp_all

lemma num_min_not_above: "\<not> num_lt b (num_min a b)"
  by (cases a; cases b) simp_all

lemma num_add_Fin_not_NaN: "h \<noteq> NaN \<Longrightarrow> num_add h (Fin a) \<noteq> NaN"
  by (cases h) simp_all

text \<open>
  Taking a non-negative finite amount from a value below a double bound leaves a value
  below that bound, rounding included.
\<close>

lemma num_sub_below:
  assumes "h \<noteq> NaN" and "num_le h m" and "is_double m" and "0 \<le> a"
  shows "num_sub h (Fin a) \<noteq> NaN \<and> num_le (num_sub h (Fin a)) m"
proof (cases h)
  case NaN
  with assms show ?thesis by simp
next
  case NegInf
  with assms show ?thesis by (cases m) (simp_all add: num_sub_def)
next
  case PosInf
  with assms show ?thesis by (cases m) (simp_all add: num_sub_def)
next
  case (Fin x)
  show ?thesis
  proof (cases m)
    case NaN
    with assms Fin show ?thesis by simp
  next
    case NegInf
    with assms Fin show ?thesis by simp
  next
    case PosInf
    then show ?thesis using Fin by (cases "fl (x + - a)") (simp_all add: num_sub_def)
  next
    case (Fin y)
    with assms \<open>h = Fin x\<close> have "x - a \<le> y" and "fl y = Fin y" by simp_all
    then have "num_le (fl (x - a)) (Fin y)" using fl_mono [of "x - a" y] by simp
    then show ?thesis using Fin \<open>h = Fin x\<close> by (simp add: num_sub_def)
  qed
qed


section \<open>Properties of \<^verbatim>\<open>BaseCharacter\<close>\<close>

lemmas method_defs = flashRed_def flashGreen_def this_scene_def this_scene_add_particles_def
  setTint_def setAlpha_def setScale_def clearTint_def in_scene_def die_def Let_def

text \<open>Health and its bound, method by method, whether the method returns or throws.\<close>

lemma takeDamage_health:
  "health (self (state_of (takeDamage a w)))
     = (if invulnerable (self w) then health (self w)
        else num_sub (health (self w)) (param a (Fin 1)))"
  by (simp add: takeDamage_def method_defs split: prod.splits)

lemma takeDamage_maxHealth:
  "maxHealth (self (state_of (takeDamage a w))) = maxHealth (self w)"
  by (simp add: takeDamage_def method_defs split: prod.splits)

lemma heal_health:
  "health (self (state_of (heal a w)))
     = num_min (num_add (health (self w)) (param a (Fin 1))) (maxHealth (self w))"
  by (simp add: heal_def method_defs split: prod.splits)

lemma heal_maxHealth: "maxHealth (self (state_of (heal a w))) = maxHealth (self w)"
  by (simp add: heal_def method_defs split: prod.splits)

lemma addTrail_health: "health (self (state_of (addTrail a w))) = health (self w)"
  by (cases "trail (self w)") (simp_all add: addTrail_def method_defs split: prod.splits)

lemma addTrail_maxHealth: "maxHealth (self (state_of (addTrail a w))) = maxHealth (self w)"
  by (cases "trail (self w)") (simp_all add: addTrail_def method_defs split: prod.splits)

lemma powerUp_health: "health (self (state_of (powerUp d w))) = health (self w)"
proof -
  have "health (self (state_of (powerUp d w)))
          = health (self (state_of (addTrail (Some 0xffff00) (setScale (fl 1.2) w))))"
    by (cases "addTrail (Some 0xffff00) (setScale (fl 1.2) w)")
       (simp_all add: powerUp_def this_scene_def in_scene_def Let_def)
  then show ?thesis by (simp add: addTrail_health setScale_def)
qed

lemma powerUp_maxHealth: "maxHealth (self (state_of (powerUp d w))) = maxHealth (self w)"
proof -
  have "maxHealth (self (state_of (powerUp d w)))
          = maxHealth (self (state_of (addTrail (Some 0xffff00) (setScale (fl 1.2) w))))"
    by (cases "addTrail (Some 0xffff00) (setScale (fl 1.2) w)")
       (simp_all add: powerUp_def this_scene_def in_scene_def Let_def)
  then show ?thesis by (simp add: addTrail_maxHealth setScale_def)
qed

lemma runCallback_health: "health (self (state_of (runCallback cb w))) = health (self w)"
  by (cases cb) (simp_all add: method_defs split: option.splits)

lemma runCallback_maxHealth: "maxHealth (self (state_of (runCallback cb w))) = maxHealth (self w)"
  by (cases cb) (simp_all add: method_defs split: option.splits)

lemma fire_health: "health (self (state_of (fire i w))) = health (self w)"
  by (simp add: fire_def Let_def runCallback_health in_scene_def)

lemma fire_maxHealth: "maxHealth (self (state_of (fire i w))) = maxHealth (self w)"
  by (simp add: fire_def Let_def runCallback_maxHealth in_scene_def)

lemma complete_health: "health (self (state_of (complete i w))) = health (self w)"
  by (simp add: complete_def Let_def runCallback_health in_scene_def split: option.splits)

lemma complete_maxHealth: "maxHealth (self (state_of (complete i w))) = maxHealth (self w)"
  by (simp add: complete_def Let_def runCallback_maxHealth in_scene_def split: option.splits)

lemma step_maxHealth: "maxHealth (self (step w e)) = maxHealth (self w)"
  by (cases e)
     (simp_all add: takeDamage_maxHealth heal_maxHealth powerUp_maxHealth fire_maxHealth
        complete_maxHealth)

lemma step_sound:
  assumes "amounts_ok e" and "sound (self w)"
  shows "sound (self (step w e))"
proof (cases e)
  case (TakeDamage a)
  with assms(1) obtain v where v: "param a (Fin 1) = Fin v" "0 \<le> v"
    by (cases "param a (Fin 1)") simp_all
  show ?thesis
  proof (cases "invulnerable (self w)")
    case True
    with assms(2) TakeDamage show ?thesis by (simp add: takeDamage_def)
  next
    case False
    from assms(2) v(2) have "num_sub (health (self w)) (Fin v) \<noteq> NaN
        \<and> num_le (num_sub (health (self w)) (Fin v)) (maxHealth (self w))"
      by (intro num_sub_below) (simp_all add: sound_def)
    with False assms(2) TakeDamage v(1) show ?thesis
      by (simp add: sound_def takeDamage_health takeDamage_maxHealth)
  qed
next
  case (Heal a)
  with assms(1) obtain v where v: "param a (Fin 1) = Fin v"
    by (cases "param a (Fin 1)") simp_all
  from assms(2) have h: "health (self w) \<noteq> NaN" and m: "maxHealth (self w) \<noteq> NaN"
    by (auto simp: sound_def)
  from h have a: "num_add (health (self w)) (Fin v) \<noteq> NaN" by (rule num_add_Fin_not_NaN)
  from a m have "num_min (num_add (health (self w)) (Fin v)) (maxHealth (self w)) \<noteq> NaN"
    and "num_le (num_min (num_add (health (self w)) (Fin v)) (maxHealth (self w))) (maxHealth (self w))"
    by (simp_all add: num_min_not_NaN num_min_le)
  with assms(2) Heal v show ?thesis
    by (simp add: sound_def heal_health heal_maxHealth)
next
  case (PowerUp d)
  with assms(2) show ?thesis by (simp add: sound_def powerUp_health powerUp_maxHealth)
next
  case (Fire i)
  with assms(2) show ?thesis by (simp add: sound_def fire_health fire_maxHealth)
next
  case (Complete i)
  with assms(2) show ?thesis by (simp add: sound_def complete_health complete_maxHealth)
qed

lemma run_maxHealth: "maxHealth (self (run es w)) = maxHealth (self w)"
  unfolding run_def by (induction es arbitrary: w) (simp_all add: step_maxHealth)

lemma run_sound: "list_all amounts_ok es \<Longrightarrow> sound (self w) \<Longrightarrow> sound (self (run es w))"
  unfolding run_def by (induction es arbitrary: w) (simp_all add: step_sound)

lemma num_or_not_NaN: "d \<noteq> NaN \<Longrightarrow> num_or v d \<noteq> NaN"
  by (cases v) (auto simp: num_or_def)

lemma constructed_sound:
  "config_health_ok cfg \<Longrightarrow> sound (self (BaseCharacter cfg s))"
proof -
  assume ok: "config_health_ok cfg"
  let ?h = "num_or (cfg_health cfg) (Fin 3)"
  have n: "?h \<noteq> NaN" by (rule num_or_not_NaN) simp
  have d: "is_double ?h"
    using ok by (cases "cfg_health cfg") (simp_all add: num_or_def config_health_ok_def fl_3)
  from n d show ?thesis
    by (simp add: sound_def BaseCharacter_def Let_def num_le_refl)
qed

lemma examplePlayer_self:
  "self examplePlayer =
     \<lparr>sprite_x = 100, sprite_y = 300, texture_key = [], scaleX = Fin 1, scaleY = Fin 1, alpha = 1,
      tint = None, collideWorldBounds = True, bounce = 0.2, speed = Fin 200, jumpHeight = Fin 400,
      health = Fin 3, maxHealth = Fin 3, isJumping = False, facing = FacingRight,
      invulnerable = False, trail = None, destroyed = False\<rparr>"
  by (simp add: examplePlayer_def BaseCharacter_def exampleConfig_def num_or_def str_or_def Let_def)

text \<open>
  Claim C8 says that \<open>health \<le> maxHealth\<close> holds after every sequence of
  \<^verbatim>\<open>takeDamage\<close>, \<^verbatim>\<open>heal\<close> and \<^verbatim>\<open>powerUp\<close> calls. \<^verbatim>\<open>takeDamage\<close> subtracts its
  amount without looking at it: on the fresh example character (health 3 of 3),
  \<^verbatim>\<open>takeDamage(-5)\<close> leaves health 8 of 3. And \<^verbatim>\<open>heal(NaN)\<close> leaves health
  \<^verbatim>\<open>NaN\<close>, which is not less than or equal to anything.
\<close>

theorem health_invariant_counterexample:
  "list_all calls_only [TakeDamage (Some (Fin (- 5)))]
   \<and> health (self (run [TakeDamage (Some (Fin (- 5)))] examplePlayer)) = Fin 8
   \<and> maxHealth (self (run [TakeDamage (Some (Fin (- 5)))] examplePlayer)) = Fin 3
   \<and> \<not> num_le (health (self (run [TakeDamage (Some (Fin (- 5)))] examplePlayer)))
         (maxHealth (self (run [TakeDamage (Some (Fin (- 5)))] examplePlayer)))
   \<and> list_all calls_only [Heal (Some NaN)]
   \<and> health (self (run [Heal (Some NaN)] examplePlayer)) = NaN
   \<and> \<not> num_le (health (self (run [Heal (Some NaN)] examplePlayer)))
         (maxHealth (self (run [Heal (Some NaN)] examplePlayer)))"
  by (simp add: run_def takeDamage_health takeDamage_maxHealth heal_health heal_maxHealth
        examplePlayer_self num_sub_def fl_8)

text \<open>
  Claim C8, amended. \<open>maxHealth\<close> is fixed at construction: no sequence of
  \<^verbatim>\<open>takeDamage\<close>, \<^verbatim>\<open>heal\<close> and \<^verbatim>\<open>powerUp\<close> calls, of delayed calls coming due and of
  tweens coming to their end changes it. \<^verbatim>\<open>heal(amount)\<close> sets health to
  \<^verbatim>\<open>Math.min(health + amount, maxHealth)\<close>, which is never greater than \<open>maxHealth\<close>
  (it is \<^verbatim>\<open>NaN\<close> when \<^verbatim>\<open>health + amount\<close> is). And \<^verbatim>\<open>health <= maxHealth\<close> holds
  after every such sequence on a newly constructed character, provided every amount of
  damage and of healing is finite and no amount of damage is negative.
\<close>

theorem health_invariant:
  "maxHealth (self (run es (BaseCharacter cfg s))) = maxHealth (self (BaseCharacter cfg s))
   \<and> health (self (state_of (heal a w)))
       = num_min (num_add (health (self w)) (param a (Fin 1))) (maxHealth (self w))
   \<and> \<not> num_lt (maxHealth (self (state_of (heal a w)))) (health (self (state_of (heal a w))))
   \<and> (config_health_ok cfg \<and> list_all amounts_ok es
        \<longrightarrow> num_le (health (self (run es (BaseCharacter cfg s))))
                   (maxHealth (self (run es (BaseCharacter cfg s)))))"
proof (intro conjI impI)
  show "maxHealth (self (run es (BaseCharacter cfg s))) = maxHealth (self (BaseCharacter cfg s))"
    by (rule run_maxHealth)
  show "health (self (state_of (heal a w)))
       = num_min (num_add (health (self w)) (param a (Fin 1))) (maxHealth (self w))"
    by (rule heal_health)
  show "\<not> num_lt (maxHealth (self (state_of (heal a w)))) (health (self (state_of (heal a w))))"
    by (simp add: heal_health heal_maxHealth num_min_not_above)
  assume "config_health_ok cfg \<and> list_all amounts_ok es"
  then have "sound (self (run es (BaseCharacter cfg s)))"
    by (simp add: run_sound constructed_sound)
  then show "num_le (health (self (run es (BaseCharacter cfg s))))
                   (maxHealth (self (run es (BaseCharacter cfg s))))"
    by (simp add: sound_def)
qed

text \<open>
  A sequence with damage, healing beyond the maximum, a power-up, a delayed call and a
  tween coming due in between.
\<close>

theorem health_invariant_witness:
  "config_health_ok exampleConfig
   \<and> list_all amounts_ok
      [TakeDamage (Some (Fin 2)), Heal (Some (Fin 5)), PowerUp None, Fire 0,
       TakeDamage None, Complete 0, Heal None]
   \<and> num_le
        (health (self (run
          [TakeDamage (Some (Fin 2)), Heal (Some (Fin 5)), PowerUp None, Fire 0,
           TakeDamage None, Complete 0, Heal None] examplePlayer)))
        (maxHealth (self (run
          [TakeDamage (Some (Fin 2)), Heal (Some (Fin 5)), PowerUp None, Fire 0,
           TakeDamage None, Complete 0, Heal None] examplePlayer)))
   \<and> maxHealth (self (run
        [TakeDamage (Some (Fin 2)), Heal (Some (Fin 5)), PowerUp None, Fire 0,
         TakeDamage None, Complete 0, Heal None] examplePlayer)) = Fin 3"
proof -
  have c: "config_health_ok exampleConfig"
    by (simp add: config_health_ok_def exampleConfig_def)
  have nn: "list_all amounts_ok
      [TakeDamage (Some (Fin 2)), Heal (Some (Fin 5)), PowerUp None, Fire 0,
       TakeDamage None, Complete 0, Heal None]"
    by simp
  have m: "maxHealth (self (BaseCharacter exampleConfig emptyScene)) = Fin 3"
    using examplePlayer_self by (simp add: examplePlayer_def)
  note inst = health_invariant [of
      "[TakeDamage (Some (Fin 2)), Heal (Some (Fin 5)), PowerUp None, Fire 0,
        TakeDamage None, Complete 0, Heal None]"
      exampleConfig emptyScene None examplePlayer]
  from inst c nn have le: "num_le
        (health (self (run
          [TakeDamage (Some (Fin 2)), Heal (Some (Fin 5)), PowerUp None, Fire 0,
           TakeDamage None, Complete 0, Heal None] (BaseCharacter exampleConfig emptyScene))))
        (maxHealth (self (run
          [TakeDamage (Some (Fin 2)), Heal (Some (Fin 5)), PowerUp None, Fire 0,
           TakeDamage None, Complete 0, Heal None] (BaseCharacter exampleConfig emptyScene))))"
    by blast
  from inst m have mx: "maxHealth (self (run
        [TakeDamage (Some (Fin 2)), Heal (Some (Fin 5)), PowerUp None, Fire 0,
         TakeDamage None, Complete 0, Heal None] (BaseCharacter exampleConfig emptyScene))) = Fin 3"
    by (simp only:)
  from c nn le mx show ?thesis unfolding examplePlayer_def by blast
qed

text \<open>
  Claim C9. While the \<open>invulnerable\<close> flag is set, \<^verbatim>\<open>takeDamage\<close> does nothing, whatever
  the amount: it returns at once, and the character and its scene are as they were, so
  health and every other field are unchanged and no death tween or particle is requested.
\<close>

theorem takeDamage_invulnerable:
  "invulnerable (self w) \<longrightarrow> takeDamage a w = Returned w"
  by (simp add: takeDamage_def)

text \<open>The example character is invulnerable right after a first hit; a second hit is lost.\<close>

theorem takeDamage_invulnerable_witness:
  "invulnerable (self (state_of (takeDamage (Some (Fin 1)) examplePlayer)))
   \<and> health (self (state_of (takeDamage (Some (Fin 1)) examplePlayer))) = Fin 2
   \<and> takeDamage (Some (Fin 5)) (state_of (takeDamage (Some (Fin 1)) examplePlayer))
       = Returned (state_of (takeDamage (Some (Fin 1)) examplePlayer))"
proof -
  have i: "invulnerable (self (state_of (takeDamage (Some (Fin 1)) examplePlayer)))"
    by (simp add: takeDamage_def method_defs examplePlayer_self num_sub_def fl_2
          split: prod.splits)
  have h: "health (self (state_of (takeDamage (Some (Fin 1)) examplePlayer))) = Fin 2"
    by (simp add: takeDamage_health examplePlayer_self num_sub_def fl_2)
  from i h takeDamage_invulnerable
    [of "state_of (takeDamage (Some (Fin 1)) examplePlayer)" "Some (Fin 5)"]
  show ?thesis by blast
qed

text \<open>
  Claim C10. The constructor takes 0 for an omitted value: when \<^verbatim>\<open>speed\<close>,
  \<^verbatim>\<open>jumpHeight\<close> or \<^verbatim>\<open>health\<close> is absent from the configuration or is 0 there, the
  character gets speed 200, jump height 400, health 3 respectively (and then
  \<open>maxHealth\<close> 3 as well).
\<close>

theorem constructor_zero_is_default:
  "(cfg_speed cfg = None \<or> cfg_speed cfg = Some (Fin 0)
      \<longrightarrow> speed (self (BaseCharacter cfg s)) = Fin 200)
   \<and> (cfg_jumpHeight cfg = None \<or> cfg_jumpHeight cfg = Some (Fin 0)
      \<longrightarrow> jumpHeight (self (BaseCharacter cfg s)) = Fin 400)
   \<and> (cfg_health cfg = None \<or> cfg_health cfg = Some (Fin 0)
      \<longrightarrow> health (self (BaseCharacter cfg s)) = Fin 3
          \<and> maxHealth (self (BaseCharacter cfg s)) = Fin 3)"
  by (auto simp: BaseCharacter_def Let_def num_or_def)

text \<open>A configuration with the speed 0 of the puzzle preset, no jump height and health 0.\<close>

theorem constructor_zero_is_default_witness:
  "cfg_speed (exampleConfig\<lparr>cfg_speed := Some (Fin 0), cfg_health := Some (Fin 0)\<rparr>) = Some (Fin 0)
   \<and> cfg_jumpHeight (exampleConfig\<lparr>cfg_speed := Some (Fin 0), cfg_health := Some (Fin 0)\<rparr>) = None
   \<and> cfg_health (exampleConfig\<lparr>cfg_speed := Some (Fin 0), cfg_health := Some (Fin 0)\<rparr>) = Some (Fin 0)
   \<and> speed (self (BaseCharacter (exampleConfig\<lparr>cfg_speed := Some (Fin 0), cfg_health := Some (Fin 0)\<rparr>) emptyScene)) = Fin 200
   \<and> jumpHeight (self (BaseCharacter (exampleConfig\<lparr>cfg_speed := Some (Fin 0), cfg_health := Some (Fin 0)\<rparr>) emptyScene)) = Fin 400
   \<and> health (self (BaseCharacter (exampleConfig\<lparr>cfg_speed := Some (Fin 0), cfg_health := Some (Fin 0)\<rparr>) emptyScene)) = Fin 3
   \<and> maxHealth (self (BaseCharacter (exampleConfig\<lparr>cfg_speed := Some (Fin 0), cfg_health := Some (Fin 0)\<rparr>) emptyScene)) = Fin 3"
proof -
  have c: "cfg_speed (exampleConfig\<lparr>cfg_speed := Some (Fin 0), cfg_health := Some (Fin 0)\<rparr>) = Some (Fin 0)"
    "cfg_jumpHeight (exampleConfig\<lparr>cfg_speed := Some (Fin 0), cfg_health := Some (Fin 0)\<rparr>) = None"
    "cfg_health (exampleConfig\<lparr>cfg_speed := Some (Fin 0), cfg_health := Some (Fin 0)\<rparr>) = Some (Fin 0)"
    by (simp_all add: exampleConfig_def)
  from c constructor_zero_is_default
    [of "exampleConfig\<lparr>cfg_speed := Some (Fin 0), cfg_health := Some (Fin 0)\<rparr>" emptyScene]
  show ?thesis by simp
qed


section \<open>Properties of \<^verbatim>\<open>SpriteFactory\<close>\<close>

lemma createCharacter_at: "returned_at (x, y) (createCharacter x y t c s)"
  by (simp add: createCharacter_def Let_def)

lemma createCollectible_at: "returned_at (x, y) (createCollectible x y t s)"
  by (simp add: createCollectible_def Let_def)

lemma createEmoji_at: "returned_at (x, y) (createEmoji x y e sz s)"
  by (simp add: createEmoji_def Let_def)

lemma createParticleEffect_at: "returned_at (x, y) (createParticleEffect x y t s)"
  by (simp add: createParticleEffect_def Let_def add_particles_def delayedCall_def
        generateTexture_def split: prod.splits)

lemma returned_at_returned: "returned_at p r \<Longrightarrow> returned r"
  by (cases r) auto

lemma colors_own:
  "style \<in> set platformStyles \<Longrightarrow> \<exists>m sh hl. objGet colors style =
      Obj [(''main'', Num m), (''shadow'', Num sh), (''highlight'', Num hl)]"
  by (auto simp: platformStyles_def colors_def objGet_def)

lemma colors_inherited:
  "style \<in> set Object_prototype \<Longrightarrow> objGet colors style = Builtin style"
  by (auto simp: Object_prototype_def colors_def objGet_def)

lemma colors_missing:
  "style \<notin> set platformStyles \<Longrightarrow> style \<notin> set Object_prototype
   \<Longrightarrow> objGet colors style = Undefined"
  by (simp add: platformStyles_def colors_def objGet_def)

lemma createPlatform_supported:
  assumes "param st ''grass'' \<in> set platformStyles"
  shows "returned_at (x, y) (createPlatform x y w h st s)"
proof -
  from colors_own [OF assms] obtain m sh hl where
    "objGet colors (param st ''grass'') =
       Obj [(''main'', Num m), (''shadow'', Num sh), (''highlight'', Num hl)]" by blast
  then show ?thesis
    by (simp add: createPlatform_def Let_def paletteGet_def objGet_def)
qed

lemma createPlatform_inherited:
  assumes "param st ''grass'' \<in> set Object_prototype"
  shows "createPlatform x y w h st s =
     Inr (Container x y
            [Rectangle 2 2 w h Undefined (Num 0.5),
             Rectangle 0 0 w h Undefined Undefined,
             Rectangle 0 (- h / 4) (w - 4) 2 Undefined Undefined], s)"
  using colors_inherited [OF assms]
  by (simp add: createPlatform_def Let_def paletteGet_def)

lemma createPlatform_missing:
  assumes "param st ''grass'' \<notin> set platformStyles"
    and "param st ''grass'' \<notin> set Object_prototype"
  shows "createPlatform x y w h st s =
     Inl (TypeError ''shadow'')"
  using colors_missing [OF assms]
  by (simp add: createPlatform_def Let_def paletteGet_def)

text \<open>
  Claim C3 says that every operation with a type or style selector returns normally for
  every selector string. \<^verbatim>\<open>createPlatform\<close> does not: for the style \<^verbatim>\<open>wood\<close> the
  palette \<^verbatim>\<open>colors[style]\<close> is \<^verbatim>\<open>undefined\<close>, and reading \<^verbatim>\<open>palette.shadow\<close> raises
  a \<^verbatim>\<open>TypeError\<close>.
\<close>

theorem createPlatform_unknown_style_counterexample:
  "createPlatform 0 400 150 20 (Some ''wood'') emptyScene
     = Inl (TypeError ''shadow'')
   \<and> \<not> returned (createPlatform 0 400 150 20 (Some ''wood'') emptyScene)"
  by (simp add: createPlatform_def Let_def paletteGet_def objGet_def colors_def
        Object_prototype_def)

text \<open>
  Claim C3, amended. \<^verbatim>\<open>createCharacter\<close>, \<^verbatim>\<open>createCollectible\<close> and
  \<^verbatim>\<open>createParticleEffect\<close> return normally for every selector string: a character type
  other than \<^verbatim>\<open>hero\<close> and \<^verbatim>\<open>enemy\<close> is drawn as the NPC, and a collectible type other
  than the four declared gives an empty container. \<^verbatim>\<open>createPlatform\<close> returns normally
  when the style is one of grass, stone, ice, metal or names a property that the palette
  table inherits from \<^verbatim>\<open>Object.prototype\<close>; for every other style it raises a
  \<^verbatim>\<open>TypeError\<close>.
\<close>

theorem selectors_outcome:
  "returned (createCharacter x y t c s)
   \<and> (param t ''hero'' \<noteq> ''hero'' \<and> param t ''hero'' \<noteq> ''enemy''
        \<longrightarrow> createCharacter x y t c s = createCharacter x y (Some ''npc'') c s)
   \<and> returned (createCollectible x y ct s)
   \<and> (param ct ''coin'' \<notin> set collectibleTypes
        \<longrightarrow> createCollectible x y ct s = Inr (Container x y [], s))
   \<and> returned (createParticleEffect x y pt s)
   \<and> (param st ''grass'' \<in> set platformStyles \<or> param st ''grass'' \<in> set Object_prototype
        \<longrightarrow> returned (createPlatform x y w h st s))
   \<and> (param st ''grass'' \<notin> set platformStyles \<and> param st ''grass'' \<notin> set Object_prototype
        \<longrightarrow> createPlatform x y w h st s
              = Inl (TypeError ''shadow''))"
proof (intro conjI impI)
  show "returned (createCharacter x y t c s)"
    by (rule returned_at_returned [OF createCharacter_at])
  show "returned (createCollectible x y ct s)"
    by (rule returned_at_returned [OF createCollectible_at])
  show "returned (createParticleEffect x y pt s)"
    by (rule returned_at_returned [OF createParticleEffect_at])
next
  assume "param t ''hero'' \<noteq> ''hero'' \<and> param t ''hero'' \<noteq> ''enemy''"
  then show "createCharacter x y t c s = createCharacter x y (Some ''npc'') c s"
    by (simp add: createCharacter_def Let_def)
next
  assume "param ct ''coin'' \<notin> set collectibleTypes"
  then show "createCollectible x y ct s = Inr (Container x y [], s)"
    by (simp add: createCollectible_def Let_def collectibleTypes_def)
next
  assume "param st ''grass'' \<in> set platformStyles \<or> param st ''grass'' \<in> set Object_prototype"
  then show "returned (createPlatform x y w h st s)"
  proof
    assume "param st ''grass'' \<in> set platformStyles"
    then show ?thesis by (rule returned_at_returned [OF createPlatform_supported])
  next
    assume "param st ''grass'' \<in> set Object_prototype"
    then show ?thesis by (simp add: createPlatform_inherited)
  qed
next
  assume "param st ''grass'' \<notin> set platformStyles \<and> param st ''grass'' \<notin> set Object_prototype"
  then show "createPlatform x y w h st s
              = Inl (TypeError ''shadow'')"
    by (simp add: createPlatform_missing)
qed

text \<open>
  The theorem at the selectors \<^verbatim>\<open>boss\<close>, \<^verbatim>\<open>key\<close>, \<^verbatim>\<open>smoke\<close>, \<^verbatim>\<open>toString\<close> and
  \<^verbatim>\<open>wood\<close>, none of them a declared sub-type.
\<close>

theorem selectors_outcome_witness:
  "param (Some ''boss'') ''hero'' \<noteq> ''hero''
   \<and> param (Some ''boss'') ''hero'' \<noteq> ''enemy''
   \<and> createCharacter 1 2 (Some ''boss'') None emptyScene
       = createCharacter 1 2 (Some ''npc'') None emptyScene
   \<and> param (Some ''key'') ''coin'' \<notin> set collectibleTypes
   \<and> createCollectible 1 2 (Some ''key'') emptyScene = Inr (Container 1 2 [], emptyScene)
   \<and> returned (createParticleEffect 1 2 (Some ''smoke'') emptyScene)
   \<and> param (Some ''toString'') ''grass'' \<in> set Object_prototype
   \<and> returned (createPlatform 1 2 150 20 (Some ''toString'') emptyScene)
   \<and> param (Some ''wood'') ''grass'' \<notin> set platformStyles
   \<and> param (Some ''wood'') ''grass'' \<notin> set Object_prototype
   \<and> createPlatform 1 2 150 20 (Some ''wood'') emptyScene
       = Inl (TypeError ''shadow'')"
proof -
  have a: "param (Some ''boss'') ''hero'' \<noteq> ''hero'' \<and> param (Some ''boss'') ''hero'' \<noteq> ''enemy''"
    by simp
  have b: "param (Some ''key'') ''coin'' \<notin> set collectibleTypes"
    by (simp add: collectibleTypes_def)
  have c: "param (Some ''toString'') ''grass'' \<in> set Object_prototype"
    by (simp add: Object_prototype_def)
  have d: "param (Some ''wood'') ''grass'' \<notin> set platformStyles
           \<and> param (Some ''wood'') ''grass'' \<notin> set Object_prototype"
    by (simp add: platformStyles_def Object_prototype_def)
  from a b
    selectors_outcome [of 1 2 "Some ''boss''" None emptyScene "Some ''key''" "Some ''smoke''"
      "Some ''wood''" 150 20]
  have 1: "createCharacter 1 2 (Some ''boss'') None emptyScene
             = createCharacter 1 2 (Some ''npc'') None emptyScene
           \<and> createCollectible 1 2 (Some ''key'') emptyScene = Inr (Container 1 2 [], emptyScene)
           \<and> returned (createParticleEffect 1 2 (Some ''smoke'') emptyScene)"
    by blast
  from d
    selectors_outcome [of 1 2 "Some ''boss''" None emptyScene "Some ''key''" "Some ''smoke''"
      "Some ''wood''" 150 20]
  have 2: "createPlatform 1 2 150 20 (Some ''wood'') emptyScene
             = Inl (TypeError ''shadow'')"
    by blast
  from c
    selectors_outcome [of 1 2 "Some ''boss''" None emptyScene "Some ''key''" "Some ''smoke''"
      "Some ''toString''" 150 20]
  have 3: "returned (createPlatform 1 2 150 20 (Some ''toString'') emptyScene)"
    by blast
  from a b c d 1 2 3 show ?thesis by blast
qed

text \<open>
  Claim C5. Each operation that builds a visual object at a position, called with a
  position \<open>(x, y)\<close> and a sub-type it declares (or none, where there is a default),
  returns an object, and the position of that object is \<open>(x, y)\<close>.
\<close>

theorem factory_position:
  "(param t ''hero'' \<in> set characterTypes
      \<longrightarrow> returned_at (x, y) (createCharacter x y t c s))
   \<and> (param st ''grass'' \<in> set platformStyles
      \<longrightarrow> returned_at (x, y) (createPlatform x y w h st s))
   \<and> (param ct ''coin'' \<in> set collectibleTypes
      \<longrightarrow> returned_at (x, y) (createCollectible x y ct s))
   \<and> returned_at (x, y) (createEmoji x y emoji sz s)
   \<and> (param pt ''explosion'' \<in> set particleTypes
      \<longrightarrow> returned_at (x, y) (createParticleEffect x y pt s))"
  by (simp add: createCharacter_at createPlatform_supported createCollectible_at
        createEmoji_at createParticleEffect_at)

theorem factory_position_witness:
  "param (Some ''enemy'') ''hero'' \<in> set characterTypes
   \<and> returned_at (100, 300) (createCharacter 100 300 (Some ''enemy'') None emptyScene)
   \<and> param (Some ''ice'') ''grass'' \<in> set platformStyles
   \<and> returned_at (100, 300) (createPlatform 100 300 150 20 (Some ''ice'') emptyScene)
   \<and> param None ''coin'' \<in> set collectibleTypes
   \<and> returned_at (100, 300) (createCollectible 100 300 None emptyScene)
   \<and> returned_at (100, 300) (createEmoji 100 300 ''cat'' (Some 48) emptyScene)
   \<and> param (Some ''magic'') ''explosion'' \<in> set particleTypes
   \<and> returned_at (100, 300) (createParticleEffect 100 300 (Some ''magic'') emptyScene)
   \<and> createCharacter 100 300 (Some ''enemy'') None emptyScene
       = Inr (Container 100 300
                [Triangle 0 0 (- 15) 15 15 15 0 (- 15) (Num 0xff0000),
                 Rectangle (- 5) (- 5) 4 2 (Num 0xffffff) Undefined,
                 Rectangle 5 (- 5) 4 2 (Num 0xffffff) Undefined], emptyScene)"
proof -
  have a: "param (Some ''enemy'') ''hero'' \<in> set characterTypes"
    by (simp add: characterTypes_def)
  have b: "param (Some ''ice'') ''grass'' \<in> set platformStyles"
    by (simp add: platformStyles_def)
  have c: "param None ''coin'' \<in> set collectibleTypes"
    by (simp add: collectibleTypes_def)
  have d: "param (Some ''magic'') ''explosion'' \<in> set particleTypes"
    by (simp add: particleTypes_def)
  have e: "createCharacter 100 300 (Some ''enemy'') None emptyScene
       = Inr (Container 100 300
                [Triangle 0 0 (- 15) 15 15 15 0 (- 15) (Num 0xff0000),
                 Rectangle (- 5) (- 5) 4 2 (Num 0xffffff) Undefined,
                 Rectangle 5 (- 5) 4 2 (Num 0xffffff) Undefined], emptyScene)"
    by (simp add: createCharacter_def Let_def)
  from a b c d e
    factory_position [of "Some ''enemy''" 100 300 None emptyScene "Some ''ice''" 150 20 None
      "''cat''" "Some 48" "Some ''magic''"]
  show ?thesis by blast
qed

end
